theory Spec2Isabelle
  imports Complex_Main "HOL-Library.Multiset" "HOL-Library.Char_ord" "HOL-Library.List_Lexorder"
begin

section \<open>Dashboards over a tabular dataset: shallow embedding\<close>

text \<open>
  The repository holds two Streamlit scripts: the video game dashboard
  (\<^verbatim>\<open>Video Game Analytics Dashboard/app.py\<close>) and the ride-hailing dashboard
  (\<^verbatim>\<open>OLA Data Analysis/app.py\<close>). Both load one table, filter it by widget
  values, and compute scalars and ranked tables from the filtered copy. The
  definitions below follow the statements of the two scripts; pandas data frames are
  tables of cells, Python exceptions are values of a sum type.
\<close>

subsection \<open>Strings\<close>

text \<open>
  Python's \<^verbatim>\<open>str.lower\<close>, restricted to the ASCII letters (a \<^typ>\<open>string\<close> is a
  list of bytes).
\<close>

definition lower_char :: "char \<Rightarrow> char" where
  "lower_char c =
     (case map_of (zip ''ABCDEFGHIJKLMNOPQRSTUVWXYZ'' ''abcdefghijklmnopqrstuvwxyz'') c of
        Some l \<Rightarrow> l
      | None \<Rightarrow> c)"

definition lower :: "string \<Rightarrow> string" where
  "lower s = map lower_char s"

text \<open>\<^verbatim>\<open>s.startswith(p)\<close> and \<^verbatim>\<open>p in s\<close>.\<close>

fun startswith :: "string \<Rightarrow> string \<Rightarrow> bool" where
  "startswith s [] = True"
| "startswith [] (p # ps) = False"
| "startswith (c # cs) (p # ps) = (c = p \<and> startswith cs ps)"

fun contains :: "string \<Rightarrow> string \<Rightarrow> bool" where
  "contains [] p = (p = [])"
| "contains (c # cs) p = (startswith (c # cs) p \<or> contains cs p)"

text \<open>\<^verbatim>\<open>s.endswith(p)\<close>.\<close>

definition endswith :: "string \<Rightarrow> string \<Rightarrow> bool" where
  "endswith s p = startswith (rev s) (rev p)"

text \<open>\<^verbatim>\<open>str.strip()\<close>: ASCII white space is removed at both ends.\<close>

definition is_space :: "char \<Rightarrow> bool" where
  "is_space c = (c \<in> set [CHR '' '', CHR 0x09, CHR 0x0A, CHR 0x0B, CHR 0x0C, CHR 0x0D,
                            CHR 0x1C, CHR 0x1D, CHR 0x1E, CHR 0x1F])"

definition strip :: "string \<Rightarrow> string" where
  "strip s = rev (dropWhile is_space (rev (dropWhile is_space s)))"

subsection \<open>Tables\<close>

text \<open>
  A cell is missing (\<^verbatim>\<open>NaN\<close>/\<^verbatim>\<open>None\<close>), a string, or a number. Numbers are exact
  reals: rounding error of the 64-bit floats is outside the model.
\<close>

datatype cell = Null | Str string | Num real

record table =
  columns :: "string list"
  rows :: "cell list list"

text \<open>
  Python exceptions. \<open>Unmodelled\<close> is not an exception: it marks an input on which the
  result is computed by library code this development does not describe (the regular
  expression engine on a pattern with metacharacters, the number parser and printer on
  unusual literals).
\<close>

datatype error =
    KeyError string
  | TypeError
  | ReError
  | FileNotFoundError
  | DatabaseError
  | ParserError
  | ZeroDivisionError
  | ValueError
  | NameError
  | Unmodelled string

fun col_index :: "string list \<Rightarrow> string \<Rightarrow> nat option" where
  "col_index [] c = None"
| "col_index (x # xs) c = (if x = c then Some 0 else map_option Suc (col_index xs c))"

text \<open>The value of column number \<open>i\<close> in a row; a row too short reads as missing.\<close>

definition cell_at :: "nat \<Rightarrow> cell list \<Rightarrow> cell" where
  "cell_at i r = (if i < length r then r ! i else Null)"

subsection \<open>Column resolver (video game dashboard, lines 78-82 and 129)\<close>

text \<open>\<^verbatim>\<open>next((c for c in df.columns if p(c)), None)\<close>\<close>

fun next_match :: "('a \<Rightarrow> bool) \<Rightarrow> 'a list \<Rightarrow> 'a option" where
  "next_match p [] = None"
| "next_match p (c # cs) = (if p c then Some c else next_match p cs)"

datatype role = Platform | Genre | Title | Rating | Global_Sales | Year

fun role_pred :: "role \<Rightarrow> string \<Rightarrow> bool" where
  "role_pred Platform c = startswith (lower c) ''platform''"
| "role_pred Genre c = contains (lower c) ''genre''"
| "role_pred Title c = (startswith (lower c) ''title'' \<or> startswith (lower c) ''name'')"
| "role_pred Rating c = (lower c = ''rating'')"
| "role_pred Global_Sales c = (contains (lower c) ''global'' \<and> contains (lower c) ''sales'')"
| "role_pred Year c =
     (lower c = ''year'' \<or> contains (lower c) ''year'' \<and> \<not> contains (lower c) ''sales'')"

definition resolve :: "string list \<Rightarrow> role \<Rightarrow> string option" where
  "resolve cols r = next_match (role_pred r) cols"

definition and_then :: "error + 'a \<Rightarrow> ('a \<Rightarrow> error + 'b) \<Rightarrow> error + 'b" where
  "and_then m f = (case m of Inl e \<Rightarrow> Inl e | Inr x \<Rightarrow> f x)"

fun try_map :: "('a \<Rightarrow> error + 'b) \<Rightarrow> 'a list \<Rightarrow> error + 'b list" where
  "try_map f [] = Inr []"
| "try_map f (x # xs) =
     and_then (f x) (\<lambda>y. and_then (try_map f xs) (\<lambda>ys. Inr (y # ys)))"

text \<open>\<^verbatim>\<open>c in t.columns\<close> and \<^verbatim>\<open>t[c]\<close>: the values of a column, or \<^verbatim>\<open>KeyError\<close>.\<close>

definition has_column :: "table \<Rightarrow> string \<Rightarrow> bool" where
  "has_column t c = (col_index (columns t) c \<noteq> None)"

definition column :: "table \<Rightarrow> string \<Rightarrow> error + cell list" where
  "column t c =
     (case col_index (columns t) c of
        None \<Rightarrow> Inl (KeyError c)
      | Some i \<Rightarrow> Inr (map (cell_at i) (rows t)))"

text \<open>\<^verbatim>\<open>t[mask]\<close>: a new table with the rows whose mask entry is true.\<close>

definition getitem_mask :: "table \<Rightarrow> bool list \<Rightarrow> table" where
  "getitem_mask t m = t\<lparr>rows := map snd (filter fst (zip m (rows t)))\<rparr>"

text \<open>
  \<^verbatim>\<open>t[c] = values\<close>: the column is replaced when the header has it and appended
  otherwise.
\<close>

definition setitem :: "table \<Rightarrow> string \<Rightarrow> cell list \<Rightarrow> table" where
  "setitem t c vs =
     (case col_index (columns t) c of
        Some i \<Rightarrow> t\<lparr>rows := map (\<lambda>(r, v). r[i := v]) (zip (rows t) vs)\<rparr>
      | None \<Rightarrow> t\<lparr>columns := columns t @ [c],
                   rows := map (\<lambda>(r, v). r @ [v]) (zip (rows t) vs)\<rparr>)"

text \<open>\<^verbatim>\<open>series.isin(values)\<close>; a missing value is a member when the list holds one.\<close>

definition isin :: "cell list \<Rightarrow> cell list \<Rightarrow> bool list" where
  "isin vs sel = map (\<lambda>v. v \<in> set sel) vs"

text \<open>\<^verbatim>\<open>t = t[t[c].isin(sel)]\<close>\<close>

definition isin_filter :: "string \<Rightarrow> cell list \<Rightarrow> table \<Rightarrow> error + table" where
  "isin_filter c sel t = and_then (column t c) (\<lambda>vs. Inr (getitem_mask t (isin vs sel)))"

subsection \<open>Numbers in text\<close>

definition digit_of :: "char \<Rightarrow> nat option" where
  "digit_of c = map_of (zip ''0123456789'' [0, 1, 2, 3, 4, 5, 6, 7, 8, 9]) c"

fun digits_value :: "nat \<Rightarrow> string \<Rightarrow> nat option" where
  "digits_value acc [] = Some acc"
| "digits_value acc (c # cs) =
     (case digit_of c of None \<Rightarrow> None | Some d \<Rightarrow> digits_value (10 * acc + d) cs)"

text \<open>
  An unsigned decimal literal \<^verbatim>\<open>ddd\<close>, \<^verbatim>\<open>ddd.ddd\<close>, \<^verbatim>\<open>ddd.\<close> or \<^verbatim>\<open>.ddd\<close> with at
  least one digit.
\<close>

definition unsigned_decimal :: "string \<Rightarrow> real option" where
  "unsigned_decimal s =
     (let ip = takeWhile (\<lambda>c. c \<noteq> CHR ''.'') s;
          fp = drop 1 (dropWhile (\<lambda>c. c \<noteq> CHR ''.'') s)
      in if ip = [] \<and> fp = [] then None
         else case (digits_value 0 ip, digits_value 0 fp) of
                (Some a, Some b) \<Rightarrow> Some (real a + real b / 10 ^ length fp)
              | _ \<Rightarrow> None)"

definition decimal_literal :: "string \<Rightarrow> real option" where
  "decimal_literal s =
     (case s of
        [] \<Rightarrow> None
      | c # cs \<Rightarrow>
          if c = CHR ''-'' then map_option uminus (unsigned_decimal cs)
          else if c = CHR ''+'' then unsigned_decimal cs
          else unsigned_decimal s)"

text \<open>
  \<^verbatim>\<open>pd.to_numeric(series, errors='coerce')\<close> on one value. A number and a missing value
  stay; a plain decimal literal becomes its number; text with no digit in it that is
  not a spelling of infinity or of not-a-number becomes missing. Other text (exponents,
  surrounding blanks, digit separators) is left to the library's parser.
\<close>

definition to_numeric :: "cell \<Rightarrow> error + cell" where
  "to_numeric v =
     (case v of
        Null \<Rightarrow> Inr Null
      | Num x \<Rightarrow> Inr (Num x)
      | Str s \<Rightarrow>
          (case decimal_literal s of
             Some x \<Rightarrow> Inr (Num x)
           | None \<Rightarrow>
               if list_all (\<lambda>c. digit_of c = None) s
                  \<and> \<not> contains (lower s) ''inf'' \<and> \<not> contains (lower s) ''nan''
               then Inr Null
               else Inl (Unmodelled ''to_numeric'')))"

text \<open>\<^verbatim>\<open>series.fillna(0) >= m\<close> on a numeric series.\<close>

definition fillna0_ge :: "real \<Rightarrow> cell \<Rightarrow> bool" where
  "fillna0_ge m v = (case v of Num x \<Rightarrow> m \<le> x | _ \<Rightarrow> m \<le> 0)"

subsection \<open>Text search\<close>

text \<open>
  \<^verbatim>\<open>series.astype(str)\<close> on one value: text stays, a missing value becomes the text
  \<^verbatim>\<open>nan\<close> (pandas before 3.0, object columns). The text of a number is left to the
  library's printer.
\<close>

definition astype_str :: "cell \<Rightarrow> error + string" where
  "astype_str v =
     (case v of
        Str s \<Rightarrow> Inr s
      | Null \<Rightarrow> Inr ''nan''
      | Num x \<Rightarrow> Inl (Unmodelled ''astype(str)''))"

text \<open>
  \<^verbatim>\<open>series.str.contains(pat, case=False, na=False)\<close> on one string. The pattern is a
  regular expression (\<^verbatim>\<open>regex=True\<close> is the default); a pattern without
  metacharacters matches where it occurs, letter case ignored.
\<close>

definition regex_meta :: "char \<Rightarrow> bool" where
  "regex_meta c = (c \<in> set (''.^$*+?{}[]|()'' @ [CHR 0x5C]))"

definition str_contains_nocase :: "string \<Rightarrow> string \<Rightarrow> error + bool" where
  "str_contains_nocase pat s =
     (if list_ex regex_meta pat then Inl (Unmodelled ''regex'')
      else Inr (contains (lower s) (lower pat)))"

subsection \<open>Filters of the video game dashboard (lines 84-102)\<close>

record filter_spec =
  selected_platforms :: "cell list"
  selected_genres :: "cell list"
  min_rating :: real
  search_title :: string

text \<open>Truth value of a resolved column name: \<^verbatim>\<open>None\<close> and the empty string are false.\<close>

definition truthy :: "string option \<Rightarrow> bool" where
  "truthy c = (case c of None \<Rightarrow> False | Some s \<Rightarrow> s \<noteq> [])"

text \<open>Lines 94-97: the two membership filters.\<close>

definition membership_filters :: "filter_spec \<Rightarrow> string list \<Rightarrow> table \<Rightarrow> error + table" where
  "membership_filters fs hdr t =
     and_then
       (if truthy (resolve hdr Platform) \<and> selected_platforms fs \<noteq> []
        then isin_filter (the (resolve hdr Platform)) (selected_platforms fs) t
        else Inr t)
       (\<lambda>t1. if truthy (resolve hdr Genre) \<and> selected_genres fs \<noteq> []
             then isin_filter (the (resolve hdr Genre)) (selected_genres fs) t1
             else Inr t1)"

text \<open>Line 99: the rating column is made numeric, in the table itself.\<close>

definition rating_to_numeric :: "string list \<Rightarrow> table \<Rightarrow> error + table" where
  "rating_to_numeric hdr t =
     and_then (column t (the (resolve hdr Rating))) (\<lambda>vs.
     and_then (try_map to_numeric vs) (\<lambda>ns.
     Inr (setitem t (the (resolve hdr Rating)) ns)))"

text \<open>Line 100: the rows whose rating, a missing one read as 0, reaches the minimum.\<close>

definition rating_threshold :: "filter_spec \<Rightarrow> string list \<Rightarrow> table \<Rightarrow> error + table" where
  "rating_threshold fs hdr t =
     and_then (column t (the (resolve hdr Rating))) (\<lambda>ws.
     Inr (getitem_mask t (map (fillna0_ge (min_rating fs)) ws)))"

text \<open>Lines 98-100.\<close>

definition rating_filter :: "filter_spec \<Rightarrow> string list \<Rightarrow> table \<Rightarrow> error + table" where
  "rating_filter fs hdr t =
     (if truthy (resolve hdr Rating)
      then and_then (rating_to_numeric hdr t) (rating_threshold fs hdr)
      else Inr t)"

text \<open>Lines 101-102: the title search.\<close>

definition title_filter :: "filter_spec \<Rightarrow> string list \<Rightarrow> table \<Rightarrow> error + table" where
  "title_filter fs hdr t =
     (if search_title fs \<noteq> [] \<and> truthy (resolve hdr Title)
      then and_then (column t (the (resolve hdr Title))) (\<lambda>vs.
           and_then (try_map astype_str vs) (\<lambda>ss.
           and_then (try_map (str_contains_nocase (search_title fs)) ss) (\<lambda>m.
           Inr (getitem_mask t m))))
      else Inr t)"

text \<open>
  Lines 93-102. The roles are resolved from the header of \<open>df\<close> (lines 78-82); the
  filters run on the copy.
\<close>

definition apply_filters :: "filter_spec \<Rightarrow> table \<Rightarrow> error + table" where
  "apply_filters fs df =
     and_then (membership_filters fs (columns df) df) (\<lambda>t1.
     and_then (rating_filter fs (columns df) t1) (\<lambda>t2.
     title_filter fs (columns df) t2))"

subsection \<open>Filters of the ride-hailing dashboard (lines 37-43)\<close>

definition ola_apply_filters ::
  "cell list \<Rightarrow> cell list \<Rightarrow> cell list \<Rightarrow> table \<Rightarrow> error + table" where
  "ola_apply_filters vehicle payment status df =
     and_then (if vehicle \<noteq> [] then isin_filter ''Vehicle_Type'' vehicle df else Inr df) (\<lambda>t1.
     and_then (if payment \<noteq> [] then isin_filter ''Payment_Method'' payment t1 else Inr t1) (\<lambda>t2.
     if status \<noteq> [] then isin_filter ''Booking_Status'' status t2 else Inr t2))"

subsection \<open>Vocabulary of the properties\<close>

text \<open>A rating value that the numeric conversion leaves as it is and that is not below 0.\<close>

definition nonneg_numeric :: "cell \<Rightarrow> bool" where
  "nonneg_numeric v = (case v of Null \<Rightarrow> True | Num x \<Rightarrow> 0 \<le> x | Str s \<Rightarrow> False)"

text \<open>The values of the column a role resolves to (none when the role is unmapped).\<close>

definition role_values :: "table \<Rightarrow> role \<Rightarrow> cell list" where
  "role_values t r =
     (case resolve (columns t) r of
        None \<Rightarrow> []
      | Some c \<Rightarrow> (case column t c of Inl e \<Rightarrow> [] | Inr vs \<Rightarrow> vs))"

text \<open>The value a row has in the column a role resolves to.\<close>

definition role_cell :: "string list \<Rightarrow> role \<Rightarrow> cell list \<Rightarrow> cell" where
  "role_cell hdr r row =
     (case resolve hdr r of
        None \<Rightarrow> Null
      | Some c \<Rightarrow> (case col_index hdr c of None \<Rightarrow> Null | Some i \<Rightarrow> cell_at i row))"

text \<open>
  A membership filter of the video game dashboard is active when its role is mapped and
  something is selected; a row passes an active filter when its value is selected.
\<close>

definition active :: "string list \<Rightarrow> role \<Rightarrow> cell list \<Rightarrow> bool" where
  "active hdr r sel = (resolve hdr r \<noteq> None \<and> sel \<noteq> [])"

definition passes :: "string list \<Rightarrow> role \<Rightarrow> cell list \<Rightarrow> cell list \<Rightarrow> bool" where
  "passes hdr r sel row = (if active hdr r sel then role_cell hdr r row \<in> set sel else True)"

text \<open>The same for a fixed column name of the ride-hailing dashboard.\<close>

definition ola_passes :: "string list \<Rightarrow> string \<Rightarrow> cell list \<Rightarrow> cell list \<Rightarrow> bool" where
  "ola_passes hdr c sel row =
     (if sel = [] then True
      else case col_index hdr c of None \<Rightarrow> False | Some i \<Rightarrow> cell_at i row \<in> set sel)"

text \<open>
  The position of the column a role resolves to, and the rows the rating stage leaves:
  each row paired with the numeric conversion \<open>v\<close> of its rating, those kept whose
  \<open>v\<close>, a missing one read as 0, reaches the minimum \<open>m\<close>, the rating written back.
\<close>

definition role_index :: "string list \<Rightarrow> role \<Rightarrow> nat" where
  "role_index hdr r =
     (case resolve hdr r of
        None \<Rightarrow> 0
      | Some c \<Rightarrow> (case col_index hdr c of None \<Rightarrow> 0 | Some i \<Rightarrow> i))"

definition rated_rows :: "real \<Rightarrow> nat \<Rightarrow> cell list list \<Rightarrow> cell list \<Rightarrow> cell list list" where
  "rated_rows m i rs ns =
     map (\<lambda>(r, v). r[i := v]) (filter (\<lambda>(r, v). fillna0_ge m v) (zip rs ns))"

definition no_filters :: filter_spec where
  "no_filters = \<lparr>selected_platforms = [], selected_genres = [], min_rating = 0, search_title = []\<rparr>"

subsection \<open>Key figures of the ride-hailing dashboard (lines 46-50)\<close>

text \<open>
  \<^verbatim>\<open>series.sum()\<close> and \<^verbatim>\<open>series.mean()\<close> skip missing values. The sum of nothing is 0;
  the mean of nothing is not-a-number, written \<open>None\<close>. What the library does with a
  column that holds text is not described here.
\<close>

fun numbers :: "cell list \<Rightarrow> error + real list" where
  "numbers [] = Inr []"
| "numbers (Null # vs) = numbers vs"
| "numbers (Num x # vs) = and_then (numbers vs) (\<lambda>xs. Inr (x # xs))"
| "numbers (Str s # vs) = Inl (Unmodelled ''arithmetic on text'')"

definition series_sum :: "cell list \<Rightarrow> error + real" where
  "series_sum vs = and_then (numbers vs) (\<lambda>xs. Inr (sum_list xs))"

definition series_mean :: "cell list \<Rightarrow> error + real option" where
  "series_mean vs =
     and_then (numbers vs) (\<lambda>xs.
       Inr (if xs = [] then None else Some (sum_list xs / real (length xs))))"

text \<open>Python's \<^verbatim>\<open>a / b\<close>.\<close>

definition truediv :: "real \<Rightarrow> real \<Rightarrow> error + real" where
  "truediv a b = (if b = 0 then Inl ZeroDivisionError else Inr (a / b))"

text \<open>
  \<^verbatim>\<open>round(x, 2)\<close>: to the nearest hundredth, a tie to the even one. Not-a-number stays.
\<close>

definition round_half_even :: "real \<Rightarrow> int" where
  "round_half_even y =
     (let f = \<lfloor>y\<rfloor> in
      if y - of_int f < 1 / 2 then f
      else if 1 / 2 < y - of_int f then f + 1
      else if even f then f else f + 1)"

definition round2 :: "real \<Rightarrow> real" where
  "round2 x = of_int (round_half_even (x * 100)) / 100"

definition total_rides :: "table \<Rightarrow> nat" where
  "total_rides t = length (rows t)"

text \<open>\<^verbatim>\<open>len(t[t["Booking_Status"] == "Success"])\<close>\<close>

definition success_rides :: "table \<Rightarrow> error + nat" where
  "success_rides t =
     and_then (column t ''Booking_Status'') (\<lambda>vs.
       Inr (length (rows (getitem_mask t (map (\<lambda>v. v = Str ''Success'') vs)))))"

definition success_rate :: "table \<Rightarrow> error + real" where
  "success_rate t =
     and_then (success_rides t) (\<lambda>s.
       if total_rides t > 0
       then and_then (truediv (real s) (real (total_rides t))) (\<lambda>q. Inr (round2 (q * 100)))
       else Inr 0)"

definition total_revenue :: "table \<Rightarrow> error + real" where
  "total_revenue t = and_then (column t ''Booking_Value'') series_sum"

definition avg_fare :: "table \<Rightarrow> error + real option" where
  "avg_fare t =
     and_then (column t ''Booking_Value'') (\<lambda>vs.
     and_then (series_mean vs) (\<lambda>m. Inr (map_option round2 m)))"

subsection \<open>Total sales of the video game dashboard (line 108)\<close>

text \<open>
  \<open>global_sales_col\<close> is resolved from the header of \<open>df\<close>; the sum is taken over
  the filtered table when that table has the column, and is 0 otherwise.
\<close>

definition total_sales :: "table \<Rightarrow> table \<Rightarrow> error + real" where
  "total_sales df filtered =
     (case resolve (columns df) Global_Sales of
        None \<Rightarrow> Inr 0
      | Some c \<Rightarrow>
          if has_column filtered c then and_then (column filtered c) series_sum else Inr 0)"

subsection \<open>Consumer behaviour tab of the video game dashboard (lines 194-227)\<close>

text \<open>
  What a tab or a catalogue entry shows: a chart or table, the notice that the
  visualization is not available, or nothing at all. Which marks are drawn is not
  described; the definitions record which columns the code reads and in which order.
\<close>

datatype outcome = Chart | Unavailable | Nothing

text \<open>\<^verbatim>\<open>t[[c1, c2, ...]]\<close>: the first column that is not there raises \<^verbatim>\<open>KeyError\<close>.\<close>

fun require :: "table \<Rightarrow> string list \<Rightarrow> error + unit" where
  "require t [] = Inr ()"
| "require t (c # cs) = (if has_column t c then require t cs else Inl (KeyError c))"

definition fillna0 :: "cell \<Rightarrow> cell" where
  "fillna0 v = (case v of Null \<Rightarrow> Num 0 | _ \<Rightarrow> v)"

text \<open>\<^verbatim>\<open>t[c] = pd.to_numeric(t[c], errors='coerce').fillna(0)\<close> (lines 198 and 199).\<close>

definition numeric_fill0 :: "string \<Rightarrow> table \<Rightarrow> error + table" where
  "numeric_fill0 c t =
     and_then (column t c) (\<lambda>vs.
     and_then (try_map to_numeric vs) (\<lambda>ns. Inr (setitem t c (map fillna0 ns))))"

text \<open>The name a possibly unresolved column is looked up by.\<close>

definition col_name :: "string option \<Rightarrow> string" where
  "col_name c = (case c of None \<Rightarrow> ''None'' | Some s \<Rightarrow> s)"

definition consumer_behavior :: "string list \<Rightarrow> table \<Rightarrow> error + outcome" where
  "consumer_behavior hdr t =
     and_then (numeric_fill0 ''Wishlist'' t) (\<lambda>t1.
     and_then (numeric_fill0 ''Plays'' t1) (\<lambda>t2.
     if truthy (resolve hdr Title)
     then and_then
            (require t2 [col_name (resolve hdr Title), ''Wishlist'',
                         col_name (resolve hdr Global_Sales), col_name (resolve hdr Rating)])
            (\<lambda>u. Inr Chart)
     else Inr Chart))"

subsection \<open>Catalogue of business questions (lines 260-389)\<close>

datatype question =
    TopRatedGames | DevelopersByAvgRating | MostCommonGenres | BacklogVsWishlist
  | ReleaseTrend | RatingDistribution | TopWishlisted | AvgPlaysPerGenre
  | ProductiveDevelopers
  | RegionHighestSales | BestSellingPlatforms | ReleasesAndSalesTrend | TopPublishers
  | TopBestSellers | RegionalSalesPerPlatform | MarketEvolution | RegionalGenrePreferences
  | YearlySalesChange | AvgSalesPerPublisher | TopFivePerPlatform
  | GenresMostGlobalSales | RatingVsGlobalSales | PlatformsMostHighRated
  | ReleasesAndSalesOverTime | WishlistVsSales | EngagementVsSales
  | WishlistBacklogRatingCorrelation | EngagementAcrossGenres | GenrePlatformCombinations
  | RegionalSalesHeatmap

text \<open>\<^verbatim>\<open>{c1, c2, ...}.issubset(t.columns)\<close>\<close>

definition has_columns :: "table \<Rightarrow> string list \<Rightarrow> bool" where
  "has_columns t cs = list_all (has_column t) cs"

text \<open>
  The chain of \<^verbatim>\<open>if\<close>/\<^verbatim>\<open>elif\<close> branches: a branch is taken when the label is its own
  and its guard holds; the columns its body reads are then looked up. The final
  \<^verbatim>\<open>else\<close> shows the notice. The entry on regions has no guard and shows nothing when
  no column ends in \<^verbatim>\<open>_Sales\<close>. A chart that names a column the table lacks raises
  \<^verbatim>\<open>ValueError\<close>.
\<close>

fun run_question :: "question \<Rightarrow> table \<Rightarrow> error + outcome" where
  "run_question TopRatedGames t =
     (if has_column t ''Rating''
      then and_then (require t [''Title'', ''Rating'']) (\<lambda>u. Inr Chart)
      else Inr Unavailable)"
| "run_question DevelopersByAvgRating t =
     (if has_column t ''Developer''
      then and_then (require t [''Rating'']) (\<lambda>u. Inr Chart)
      else Inr Unavailable)"
| "run_question MostCommonGenres t =
     (if has_column t ''Genre'' then Inr Chart else Inr Unavailable)"
| "run_question BacklogVsWishlist t =
     (if has_columns t [''Backlogs'', ''Wishlist'']
      then and_then (require t [''Title'', ''Backlogs'', ''Wishlist'']) (\<lambda>u. Inr Chart)
      else Inr Unavailable)"
| "run_question ReleaseTrend t =
     (if has_column t ''Year'' then Inr Chart else Inr Unavailable)"
| "run_question RatingDistribution t =
     (if has_column t ''Rating'' then Inr Chart else Inr Unavailable)"
| "run_question TopWishlisted t =
     (if has_column t ''Wishlist''
      then and_then (require t [''Title'', ''Wishlist'']) (\<lambda>u. Inr Chart)
      else Inr Unavailable)"
| "run_question AvgPlaysPerGenre t =
     (if has_columns t [''Genre'', ''Plays''] then Inr Chart else Inr Unavailable)"
| "run_question RegionHighestSales t =
     (if filter (\<lambda>c. endswith c ''_Sales'') (columns t) \<noteq> [] then Inr Chart else Inr Nothing)"
| "run_question TopBestSellers t =
     (if has_column t ''Global_Sales''
      then and_then (require t [''Title'', ''Global_Sales'']) (\<lambda>u. Inr Chart)
      else Inr Unavailable)"
| "run_question GenresMostGlobalSales t =
     (if has_columns t [''Genre'', ''Global_Sales''] then Inr Chart else Inr Unavailable)"
| "run_question RatingVsGlobalSales t =
     (if has_columns t [''Rating'', ''Global_Sales'']
      then (if has_column t ''Genre'' then Inr Chart else Inl ValueError)
      else Inr Unavailable)"
| "run_question WishlistBacklogRatingCorrelation t =
     (if has_columns t [''Wishlist'', ''Backlogs'', ''Rating''] then Inr Chart
      else Inr Unavailable)"
| "run_question q t = Inr Unavailable"

subsection \<open>Loaders\<close>

text \<open>
  What a loader finds at a path: nothing, a file it cannot read as the expected format,
  or the content. A database is a list of named tables.
\<close>

datatype 'a source = Absent | Unreadable | Present 'a

record vg_files =
  db_file :: "(string \<times> table) list source"
  csv_file :: "table source"

text \<open>\<^verbatim>\<open>pd.DataFrame()\<close> and \<^verbatim>\<open>df.empty\<close> (no column or no row).\<close>

definition empty_frame :: table where
  "empty_frame = \<lparr>columns = [], rows = []\<rparr>"

definition empty :: "table \<Rightarrow> bool" where
  "empty t = (columns t = [] \<or> rows t = [])"

definition read_csv :: "table source \<Rightarrow> error + table" where
  "read_csv f =
     (case f of Absent \<Rightarrow> Inl FileNotFoundError | Unreadable \<Rightarrow> Inl ParserError
      | Present t \<Rightarrow> Inr t)"

text \<open>\<^verbatim>\<open>pd.read_csv(csv_path) if csv_path.exists() else pd.DataFrame()\<close>\<close>

definition read_csv_if_exists :: "table source \<Rightarrow> error + table" where
  "read_csv_if_exists f = (if f \<noteq> Absent then read_csv f else Inr empty_frame)"

text \<open>\<^verbatim>\<open>pd.read_sql("SELECT * FROM name", conn)\<close>\<close>

definition read_sql :: "(string \<times> table) list \<Rightarrow> string \<Rightarrow> error + table" where
  "read_sql tabs name = (case map_of tabs name of None \<Rightarrow> Inl DatabaseError | Some t \<Rightarrow> Inr t)"

text \<open>
  Lines 34-67 of the video game dashboard. The join of the two tables \<^verbatim>\<open>games\<close> and
  \<^verbatim>\<open>sales\<close> reads the key columns and is then left to the library.
\<close>

definition load_data :: "vg_files \<Rightarrow> error + table" where
  "load_data fl =
     and_then
       (case db_file fl of
          Absent \<Rightarrow> read_csv_if_exists (csv_file fl)
        | Unreadable \<Rightarrow> Inl DatabaseError
        | Present tabs \<Rightarrow>
            if ''merged'' \<in> set (map fst tabs) then read_sql tabs ''merged''
            else if ''video_game_data'' \<in> set (map fst tabs) then read_sql tabs ''video_game_data''
            else if ''games'' \<in> set (map fst tabs) \<and> ''sales'' \<in> set (map fst tabs)
            then and_then (read_sql tabs ''games'') (\<lambda>g.
                 and_then (read_sql tabs ''sales'') (\<lambda>s.
                 and_then (column g ''Title'') (\<lambda>tl.
                 and_then (column s ''Name'') (\<lambda>nl. Inl (Unmodelled ''merge'')))))
            else read_csv_if_exists (csv_file fl))
       (\<lambda>df. Inr (df\<lparr>columns := map strip (columns df)\<rparr>))"

text \<open>
  How a script goes on after loading: it stops with the notice that no data was found,
  or it continues with the table.
\<close>

datatype 'a startup = Halted | Continues 'a

text \<open>Lines 69-72.\<close>

definition vg_startup :: "vg_files \<Rightarrow> error + table startup" where
  "vg_startup fl =
     and_then (load_data fl) (\<lambda>df. Inr (if empty df then Halted else Continues df))"

text \<open>
  \<^verbatim>\<open>pd.to_datetime(series, errors="coerce")\<close> on one value; time stamps are numbers, and
  the reading of dates written as text is left to the library.
\<close>

definition to_datetime :: "cell \<Rightarrow> error + cell" where
  "to_datetime v =
     (case v of Null \<Rightarrow> Inr Null | Num x \<Rightarrow> Inr (Num x)
      | Str s \<Rightarrow> Inl (Unmodelled ''to_datetime''))"

text \<open>Lines 12-18 of the ride-hailing dashboard: no check follows the load.\<close>

definition ola_load_data :: "table source \<Rightarrow> error + table" where
  "ola_load_data f =
     and_then (read_csv f) (\<lambda>df.
     and_then (column df ''Date'') (\<lambda>vs.
     and_then (try_map to_datetime vs) (\<lambda>ds.
     let df1 = setitem df ''Date'' ds in Inr (df1\<lparr>columns := map strip (columns df1)\<rparr>))))"

definition ola_startup :: "table source \<Rightarrow> error + table startup" where
  "ola_startup f = and_then (ola_load_data f) (\<lambda>df. Inr (Continues df))"

subsection \<open>Second filter pass of the video game dashboard (lines 234-256)\<close>

record question_filters =
  genre_filter :: "cell list"
  platform_filter :: "cell list"
  year_range :: "real \<times> real"

text \<open>
  \<^verbatim>\<open>int(df['Year'].min()), int(df['Year'].max())\<close> and the slider over them (lines
  245-246): a column with no number in it gives not-a-number, which \<^verbatim>\<open>int\<close> refuses,
  and the slider wants its minimum below its maximum.
\<close>

definition py_int :: "real \<Rightarrow> int" where
  "py_int x = (if 0 \<le> x then \<lfloor>x\<rfloor> else \<lceil>x\<rceil>)"

definition year_bounds :: "table \<Rightarrow> error + unit" where
  "year_bounds t =
     and_then (column t ''Year'') (\<lambda>vs.
     and_then (numbers vs) (\<lambda>xs.
       if xs = [] then Inl ValueError
       else if py_int (Min (set xs)) < py_int (Max (set xs)) then Inr ()
       else Inl (Unmodelled ''slider'')))"

text \<open>\<^verbatim>\<open>(t['Year'] >= lo) & (t['Year'] <= hi)\<close> on one value; text does not compare with a number.\<close>

definition between :: "real \<times> real \<Rightarrow> cell \<Rightarrow> error + bool" where
  "between r v =
     (case v of Null \<Rightarrow> Inr False | Num x \<Rightarrow> Inr (fst r \<le> x \<and> x \<le> snd r)
      | Str s \<Rightarrow> Inl TypeError)"

definition year_filter :: "real \<times> real \<Rightarrow> table \<Rightarrow> error + table" where
  "year_filter r t =
     and_then (column t ''Year'') (\<lambda>vs.
     and_then (try_map (between r) vs) (\<lambda>m. Inr (getitem_mask t m)))"

text \<open>
  The selections are offered only when \<open>df\<close> has the column (lines 234-248); each
  active one gives a new table (lines 251-256).
\<close>

definition second_stage_steps :: "question_filters \<Rightarrow> table \<Rightarrow> (table \<Rightarrow> error + table) list" where
  "second_stage_steps qf df =
     (if has_column df ''Genre'' \<and> genre_filter qf \<noteq> []
      then [isin_filter ''Genre'' (genre_filter qf)] else [])
     @ (if has_column df ''Platform'' \<and> platform_filter qf \<noteq> []
        then [isin_filter ''Platform'' (platform_filter qf)] else [])
     @ (if has_column df ''Year'' then [year_filter (year_range qf)] else [])"

fun derived :: "(table \<Rightarrow> error + table) list \<Rightarrow> table \<Rightarrow> error + table" where
  "derived [] t = Inr t"
| "derived (g # gs) t = and_then (g t) (derived gs)"

text \<open>Lines 250-256 as a function of the loaded table.\<close>

definition second_stage :: "question_filters \<Rightarrow> table \<Rightarrow> error + table" where
  "second_stage qf df = derived (second_stage_steps qf df) df"

subsection \<open>The scripts as statements over a store of tables\<close>

text \<open>
  A data frame is an object: the variables \<open>df\<close> and \<open>filtered\<close> hold addresses into a
  store. The statements of the scripts that bind or change a frame are of these kinds:
  \<^item> \<open>Copy\<close>: \<^verbatim>\<open>filtered = df.copy()\<close>, a new object;
  \<^item> \<open>Alias\<close>: \<^verbatim>\<open>filtered = df\<close>, the same object (no script of the repository does it);
  \<^item> \<open>Derive g\<close>: \<^verbatim>\<open>filtered = g(filtered)\<close>, a new object (indexing by a mask);
  \<^item> \<open>Mutate g\<close>: \<^verbatim>\<open>filtered[c] = ...\<close>, a change of the object \<open>filtered\<close> is bound to;
  \<^item> \<open>Inspect g\<close> and \<open>Read_df g\<close>: a computation that reads \<open>filtered\<close>, or \<open>df\<close>, and
    may raise.
  An exception ends the run; the store is then as the last statement left it.
\<close>

datatype stmt =
    Copy
  | Alias
  | Derive "table \<Rightarrow> error + table"
  | Mutate "table \<Rightarrow> error + table"
  | Inspect "table \<Rightarrow> error + unit"
  | Read_df "table \<Rightarrow> error + unit"

record state =
  heap :: "table list"
  filtered_ref :: "nat option"

fun exec :: "nat \<Rightarrow> stmt \<Rightarrow> state \<Rightarrow> error option \<times> state" where
  "exec d Copy s =
     (None, \<lparr>heap = heap s @ [heap s ! d], filtered_ref = Some (length (heap s))\<rparr>)"
| "exec d Alias s = (None, s\<lparr>filtered_ref := Some d\<rparr>)"
| "exec d (Derive g) s =
     (case filtered_ref s of
        None \<Rightarrow> (Some NameError, s)
      | Some a \<Rightarrow>
          (case g (heap s ! a) of
             Inl e \<Rightarrow> (Some e, s)
           | Inr t \<Rightarrow> (None, \<lparr>heap = heap s @ [t], filtered_ref = Some (length (heap s))\<rparr>)))"
| "exec d (Mutate g) s =
     (case filtered_ref s of
        None \<Rightarrow> (Some NameError, s)
      | Some a \<Rightarrow>
          (case g (heap s ! a) of
             Inl e \<Rightarrow> (Some e, s)
           | Inr t \<Rightarrow> (None, s\<lparr>heap := (heap s)[a := t]\<rparr>)))"
| "exec d (Inspect g) s =
     (case filtered_ref s of
        None \<Rightarrow> (Some NameError, s)
      | Some a \<Rightarrow> (case g (heap s ! a) of Inl e \<Rightarrow> (Some e, s) | Inr u \<Rightarrow> (None, s)))"
| "exec d (Read_df g) s =
     (case g (heap s ! d) of Inl e \<Rightarrow> (Some e, s) | Inr u \<Rightarrow> (None, s))"

fun run :: "nat \<Rightarrow> stmt list \<Rightarrow> state \<Rightarrow> error option \<times> state" where
  "run d [] s = (None, s)"
| "run d (x # xs) s =
     (case exec d x s of (Some e, s') \<Rightarrow> (Some e, s') | (None, s') \<Rightarrow> run d xs s')"

text \<open>The state after loading: \<open>df\<close> is the only object, at address 0.\<close>

definition loaded :: "table \<Rightarrow> state" where
  "loaded df = \<lparr>heap = [df], filtered_ref = None\<rparr>"

text \<open>A computation whose value is not kept.\<close>

definition discard :: "(table \<Rightarrow> error + 'a) \<Rightarrow> table \<Rightarrow> error + unit" where
  "discard g t = and_then (g t) (\<lambda>x. Inr ())"

text \<open>
  The statements of the video game script that read a frame and may raise, in the order
  of the script. A sum, a mean or a sort over a column that holds text, and a marker
  size below 0, are left to the library: the run ends there in the model. Calls that
  only draw what was computed are taken not to raise.
\<close>

text \<open>\<^verbatim>\<open>sorted(series.dropna().unique())\<close>: text and numbers do not compare.\<close>

definition sortable :: "cell list \<Rightarrow> error + unit" where
  "sortable vs =
     (let xs = filter (\<lambda>v. v \<noteq> Null) vs in
      if list_all (\<lambda>v. case v of Str s \<Rightarrow> True | _ \<Rightarrow> False) xs
         \<or> list_all (\<lambda>v. case v of Num x \<Rightarrow> True | _ \<Rightarrow> False) xs
      then Inr () else Inl TypeError)"

text \<open>Lines 84-88: the choices offered for a role are the sorted values of its column.\<close>

definition option_labels :: "role \<Rightarrow> table \<Rightarrow> error + unit" where
  "option_labels r df =
     (if truthy (resolve (columns df) r)
      then and_then (column df (the (resolve (columns df) r))) sortable
      else Inr ())"

text \<open>\<^verbatim>\<open>t[c]\<close> for a column name that may be \<^verbatim>\<open>None\<close>.\<close>

definition column_of :: "table \<Rightarrow> string option \<Rightarrow> error + cell list" where
  "column_of t c = (case c of None \<Rightarrow> Inl (KeyError ''None'') | Some n \<Rightarrow> column t n)"

text \<open>\<^verbatim>\<open>t[c].mean() if c in t.columns else None\<close> (lines 109 and 111).\<close>

definition mean_if_present :: "string option \<Rightarrow> table \<Rightarrow> error + real option" where
  "mean_if_present c t =
     (case c of
        None \<Rightarrow> Inr None
      | Some n \<Rightarrow> if has_column t n then and_then (column t n) series_mean else Inr None)"

text \<open>Lines 108-116: the four headline figures (the count of distinct titles cannot raise).\<close>

definition headline :: "table \<Rightarrow> table \<Rightarrow> error + unit" where
  "headline df t =
     and_then (total_sales df t) (\<lambda>s.
     and_then (mean_if_present (resolve (columns df) Rating) t) (\<lambda>r.
     and_then (mean_if_present (Some ''Wishlist'') t) (\<lambda>w. Inr ())))"

text \<open>Lines 129-145: sales by year, and the ten best sellers.\<close>

definition overview :: "string list \<Rightarrow> table \<Rightarrow> error + unit" where
  "overview hdr t =
     and_then
       (if truthy (resolve hdr Year) \<and> truthy (resolve hdr Global_Sales)
           \<and> has_column t (the (resolve hdr Year))
        then and_then (column t (the (resolve hdr Year))) (\<lambda>ys.
             and_then (column t (the (resolve hdr Global_Sales))) (\<lambda>vs.
             and_then (numbers vs) (\<lambda>xs. sortable ys)))
        else Inr ())
       (\<lambda>u. if truthy (resolve hdr Global_Sales)
            then and_then (column t (the (resolve hdr Global_Sales))) (\<lambda>vs.
                 and_then (numbers vs) (\<lambda>xs. Inr ()))
            else Inr ())"

text \<open>Lines 148-160: sales and mean rating by genre.\<close>

definition genre_insights :: "string list \<Rightarrow> table \<Rightarrow> error + unit" where
  "genre_insights hdr t =
     (if truthy (resolve hdr Genre)
      then and_then (column t (the (resolve hdr Genre))) (\<lambda>gs.
           and_then (column_of t (resolve hdr Global_Sales)) (\<lambda>vs.
           and_then (numbers vs) (\<lambda>xs.
           if truthy (resolve hdr Rating)
           then and_then (column t (the (resolve hdr Rating))) (\<lambda>rs.
                and_then (numbers rs) (\<lambda>ys. Inr ()))
           else Inr ())))
      else Inr ())"

text \<open>Lines 163-192: sales by platform, and the bubble chart sized by total sales.\<close>

definition platform_insights :: "string list \<Rightarrow> table \<Rightarrow> error + unit" where
  "platform_insights hdr t =
     (if truthy (resolve hdr Platform)
      then and_then (column t (the (resolve hdr Platform))) (\<lambda>ps.
           and_then (column_of t (resolve hdr Global_Sales)) (\<lambda>vs.
           and_then (numbers vs) (\<lambda>xs.
           if truthy (resolve hdr Rating)
           then and_then (column t (the (resolve hdr Rating))) (\<lambda>rs.
                and_then (numbers rs) (\<lambda>ys.
                if list_all (\<lambda>x. 0 \<le> x) xs then Inr ()
                else Inl (Unmodelled ''marker size'')))
           else Inr ())))
      else Inr ())"

text \<open>Lines 202-219: the bubble chart of the consumer tab, sized by plays.\<close>

definition consumer_scatter :: "table \<Rightarrow> error + unit" where
  "consumer_scatter t =
     and_then (column t ''Wishlist'') (\<lambda>ws.
     and_then (column t ''Plays'') (\<lambda>ps.
     and_then (numbers ps) (\<lambda>xs.
     if list_all (\<lambda>x. 0 \<le> x) xs then Inr () else Inl (Unmodelled ''marker size''))))"

text \<open>Lines 234-248: the choices and the year slider of the second pass, read from \<open>df\<close>.\<close>

definition second_pass_widgets :: "table \<Rightarrow> error + unit" where
  "second_pass_widgets df =
     and_then
       (if has_column df ''Genre'' then and_then (column df ''Genre'') sortable else Inr ())
       (\<lambda>u. and_then
          (if has_column df ''Platform'' then and_then (column df ''Platform'') sortable
           else Inr ())
          (\<lambda>u. if has_column df ''Year'' then year_bounds df else Inr ()))"

text \<open>
  The video game script after loading. An empty table stops it at line 72. Otherwise:
  the choices of the sidebar (lines 84-88), the sidebar pass (lines 93-102), the
  headline figures (lines 108-116), the tabs (lines 124-227), the widgets of the second
  pass (lines 234-248), the second pass (lines 250-256) and the chosen question (lines
  304-389).
\<close>

definition sidebar_steps :: "filter_spec \<Rightarrow> string list \<Rightarrow> stmt list" where
  "sidebar_steps fs hdr =
     (if truthy (resolve hdr Platform) \<and> selected_platforms fs \<noteq> []
      then [Derive (isin_filter (the (resolve hdr Platform)) (selected_platforms fs))] else [])
     @ (if truthy (resolve hdr Genre) \<and> selected_genres fs \<noteq> []
        then [Derive (isin_filter (the (resolve hdr Genre)) (selected_genres fs))] else [])
     @ (if truthy (resolve hdr Rating)
        then [Mutate (rating_to_numeric hdr), Derive (rating_threshold fs hdr)] else [])
     @ (if search_title fs \<noteq> [] \<and> truthy (resolve hdr Title)
        then [Derive (title_filter fs hdr)] else [])"

text \<open>The statements up to the second \<^verbatim>\<open>df.copy()\<close> (line 250).\<close>

definition vg_first_part :: "filter_spec \<Rightarrow> table \<Rightarrow> stmt list" where
  "vg_first_part fs df =
     [Read_df (option_labels Platform), Read_df (option_labels Genre), Copy]
     @ sidebar_steps fs (columns df)
     @ [Inspect (headline df),
        Inspect (overview (columns df)),
        Inspect (genre_insights (columns df)),
        Inspect (platform_insights (columns df)),
        Mutate (numeric_fill0 ''Wishlist''),
        Mutate (numeric_fill0 ''Plays''),
        Inspect consumer_scatter,
        Inspect (discard (consumer_behavior (columns df))),
        Read_df second_pass_widgets]"

text \<open>Lines 250-256.\<close>

definition second_pass :: "question_filters \<Rightarrow> table \<Rightarrow> stmt list" where
  "second_pass qf df = Copy # map Derive (second_stage_steps qf df)"

definition vg_script :: "filter_spec \<Rightarrow> question_filters \<Rightarrow> question \<Rightarrow> table \<Rightarrow> stmt list" where
  "vg_script fs qf q df =
     (if empty df then []
      else vg_first_part fs df @ second_pass qf df @ [Inspect (discard (run_question q))])"

text \<open>
  The ride-hailing dashboard page: the choices (lines 32-34), the filters (lines
  37-43), the key figures (lines 46-50), the charts (lines 64-95), the hour column
  (lines 98-99) and the last chart (line 106). A time stamp is a number of seconds. The
  other two pages bind and change no frame.
\<close>

definition hour_of :: "cell \<Rightarrow> error + cell" where
  "hour_of v =
     (case v of Null \<Rightarrow> Inr Null
      | Num x \<Rightarrow> Inr (Num (of_int (\<lfloor>x / 3600\<rfloor> mod 24)))
      | Str s \<Rightarrow> Inl (Unmodelled ''dt.hour''))"

definition hour_column :: "table \<Rightarrow> error + table" where
  "hour_column t =
     and_then (column t ''Date'') (\<lambda>vs.
     and_then (try_map hour_of vs) (\<lambda>hs. Inr (setitem t ''Hour'' hs)))"

text \<open>Lines 74-77: revenue by pickup location.\<close>

definition revenue_by_pickup :: "table \<Rightarrow> error + unit" where
  "revenue_by_pickup t =
     and_then (column t ''Pickup_Location'') (\<lambda>ls.
     and_then (column t ''Booking_Value'') (\<lambda>vs.
     and_then (numbers vs) (\<lambda>xs. Inr ())))"

text \<open>Line 106: a chart raises \<^verbatim>\<open>ValueError\<close> for a column that is not there.\<close>

definition distance_fare_chart :: "table \<Rightarrow> error + unit" where
  "distance_fare_chart t =
     (if has_columns t [''Ride_Distance'', ''Booking_Value'', ''Vehicle_Type'']
      then and_then (column t ''Booking_Value'') (\<lambda>vs.
           if list_all (\<lambda>v. case v of Num x \<Rightarrow> 0 \<le> x | _ \<Rightarrow> False) vs then Inr ()
           else Inl (Unmodelled ''marker size''))
      else Inl ValueError)"

definition ola_script :: "cell list \<Rightarrow> cell list \<Rightarrow> cell list \<Rightarrow> stmt list" where
  "ola_script vehicle payment status =
     [Read_df (\<lambda>df. require df [''Vehicle_Type'', ''Payment_Method'', ''Booking_Status'']),
      Copy]
     @ (if vehicle \<noteq> [] then [Derive (isin_filter ''Vehicle_Type'' vehicle)] else [])
     @ (if payment \<noteq> [] then [Derive (isin_filter ''Payment_Method'' payment)] else [])
     @ (if status \<noteq> [] then [Derive (isin_filter ''Booking_Status'' status)] else [])
     @ [Inspect (discard success_rate), Inspect (discard total_revenue),
        Inspect (discard avg_fare),
        Inspect revenue_by_pickup,
        Mutate hour_column,
        Inspect (\<lambda>t. require t [''Hour'', ''Booking_ID'']),
        Inspect distance_fare_chart]"

subsection \<open>Vocabulary of the store properties\<close>

fun is_alias :: "stmt \<Rightarrow> bool" where
  "is_alias Alias = True"
| "is_alias x = False"

text \<open>Statements that touch \<open>filtered\<close> only, and what each does to its value.\<close>

fun local_stmt :: "stmt \<Rightarrow> bool" where
  "local_stmt (Derive g) = True"
| "local_stmt (Mutate g) = True"
| "local_stmt (Inspect g) = True"
| "local_stmt x = False"

fun fn_of :: "stmt \<Rightarrow> table \<Rightarrow> error + table" where
  "fn_of (Derive g) = g"
| "fn_of (Mutate g) = g"
| "fn_of (Inspect g) = (\<lambda>t. and_then (g t) (\<lambda>u. Inr t))"
| "fn_of x = Inr"

text \<open>
  The object of \<open>df\<close>, at address \<open>d\<close>, exists, and \<open>filtered\<close>, when bound, is bound to
  another, later object.
\<close>

definition separate :: "nat \<Rightarrow> state \<Rightarrow> bool" where
  "separate d s =
     (d < length (heap s)
      \<and> (case filtered_ref s of None \<Rightarrow> True | Some a \<Rightarrow> d < a \<and> a < length (heap s)))"

text \<open>The table \<open>filtered\<close> is bound to.\<close>

definition filtered_value :: "state \<Rightarrow> table option" where
  "filtered_value s = map_option (\<lambda>a. heap s ! a) (filtered_ref s)"

subsection \<open>Top-N tables\<close>
















subsection \<open>Facts about the string functions\<close>

lemma startswith_iff: "startswith s p \<longleftrightarrow> (\<exists>t. s = p @ t)"
  by (induction s p rule: startswith.induct) auto

lemma contains_iff: "contains s p \<longleftrightarrow> (\<exists>a b. s = a @ p @ b)"
proof (induction s)
  case Nil
  then show ?case by auto
next
  case (Cons c cs)
  show ?case
  proof
    assume "contains (c # cs) p"
    then consider "startswith (c # cs) p" | "contains cs p" by auto
    then show "\<exists>a b. c # cs = a @ p @ b"
    proof cases
      case 1
      then obtain t where "c # cs = p @ t" by (auto simp: startswith_iff)
      then have "c # cs = [] @ p @ t" by simp
      then show ?thesis by blast
    next
      case 2
      then obtain a b where "cs = a @ p @ b" using Cons.IH by blast
      then have "c # cs = (c # a) @ p @ b" by simp
      then show ?thesis by blast
    qed
  next
    assume "\<exists>a b. c # cs = a @ p @ b"
    then obtain a b where ab: "c # cs = a @ p @ b" by blast
    show "contains (c # cs) p"
    proof (cases a)
      case Nil
      with ab have "startswith (c # cs) p" by (auto simp: startswith_iff)
      then show ?thesis by simp
    next
      case (Cons x a')
      with ab have "cs = a' @ p @ b" by simp
      then have "contains cs p" using Cons.IH by blast
      then show ?thesis by simp
    qed
  qed
qed

lemma lower_char_idem: "lower_char (lower_char c) = lower_char c"
  by (auto simp: lower_char_def split: if_splits)

lemma lower_idem: "lower (lower s) = lower s"
  by (simp add: lower_def lower_char_idem)

subsection \<open>Facts about the resolver\<close>

lemma next_match_None: "next_match p cs = None \<longleftrightarrow> (\<forall>c \<in> set cs. \<not> p c)"
  by (induction cs) auto

lemma next_match_Some:
  "next_match p cs = Some c \<longleftrightarrow>
     (\<exists>i < length cs. cs ! i = c \<and> p c \<and> (\<forall>j < i. \<not> p (cs ! j)))"
proof (induction cs)
  case Nil
  then show ?case by simp
next
  case (Cons x xs)
  show ?case
  proof (cases "p x")
    case True
    have "(\<exists>i < length (x # xs). (x # xs) ! i = c \<and> p c \<and> (\<forall>j < i. \<not> p ((x # xs) ! j)))
            \<longleftrightarrow> x = c"
    proof
      assume "\<exists>i < length (x # xs). (x # xs) ! i = c \<and> p c \<and> (\<forall>j < i. \<not> p ((x # xs) ! j))"
      then obtain i where i: "(x # xs) ! i = c" "\<forall>j < i. \<not> p ((x # xs) ! j)" by blast
      have "i = 0"
      proof (rule ccontr)
        assume "i \<noteq> 0"
        then have "0 < i" by simp
        with i(2) have "\<not> p ((x # xs) ! 0)" by blast
        with True show False by simp
      qed
      with i(1) show "x = c" by simp
    next
      assume "x = c"
      with True have "(x # xs) ! 0 = c \<and> p c \<and> (\<forall>j < 0. \<not> p ((x # xs) ! j))" by simp
      then show "\<exists>i < length (x # xs). (x # xs) ! i = c \<and> p c \<and> (\<forall>j < i. \<not> p ((x # xs) ! j))"
        by (intro exI[of _ 0]) simp
    qed
    with True show ?thesis by auto
  next
    case False
    have "(\<exists>i < length (x # xs). (x # xs) ! i = c \<and> p c \<and> (\<forall>j < i. \<not> p ((x # xs) ! j)))
            \<longleftrightarrow> (\<exists>i < length xs. xs ! i = c \<and> p c \<and> (\<forall>j < i. \<not> p (xs ! j)))"
    proof
      assume "\<exists>i < length (x # xs). (x # xs) ! i = c \<and> p c \<and> (\<forall>j < i. \<not> p ((x # xs) ! j))"
      then obtain i where i: "i < length (x # xs)" "(x # xs) ! i = c" "p c"
        "\<forall>j < i. \<not> p ((x # xs) ! j)" by blast
      from i(2,3) False have "i \<noteq> 0" by (cases i) auto
      then obtain k where k: "i = Suc k" by (cases i) auto
      have "\<forall>j < k. \<not> p (xs ! j)"
      proof (intro allI impI)
        fix j assume "j < k"
        then have "Suc j < i" using k by simp
        with i(4) have "\<not> p ((x # xs) ! Suc j)" by blast
        then show "\<not> p (xs ! j)" by simp
      qed
      with i k have "k < length xs \<and> xs ! k = c \<and> p c \<and> (\<forall>j < k. \<not> p (xs ! j))" by simp
      then show "\<exists>i < length xs. xs ! i = c \<and> p c \<and> (\<forall>j < i. \<not> p (xs ! j))" by blast
    next
      assume "\<exists>i < length xs. xs ! i = c \<and> p c \<and> (\<forall>j < i. \<not> p (xs ! j))"
      then obtain k where k: "k < length xs" "xs ! k = c" "p c" "\<forall>j < k. \<not> p (xs ! j)"
        by blast
      have "\<forall>j < Suc k. \<not> p ((x # xs) ! j)"
      proof (intro allI impI)
        fix j assume "j < Suc k"
        then show "\<not> p ((x # xs) ! j)" using False k(4) by (cases j) auto
      qed
      with k have "Suc k < length (x # xs) \<and> (x # xs) ! Suc k = c \<and> p c
          \<and> (\<forall>j < Suc k. \<not> p ((x # xs) ! j))" by simp
      then show "\<exists>i < length (x # xs). (x # xs) ! i = c \<and> p c \<and> (\<forall>j < i. \<not> p ((x # xs) ! j))"
        by blast
    qed
    with False Cons.IH show ?thesis by simp
  qed
qed

lemma role_pred_lower: "role_pred r (lower c) = role_pred r c"
  by (cases r) (simp_all add: lower_idem)

text \<open>
  C7. For every sequence of header strings and every role, the resolver returns the
  first header, in the original order, that satisfies the role's predicate, and no
  mapping exactly when no header satisfies it; the predicate looks at the lower-cased
  header only, and the result is a function of the header sequence alone.
\<close>

theorem resolve_first_match:
  "(resolve cols r = None \<longleftrightarrow> (\<forall>c \<in> set cols. \<not> role_pred r c))
   \<and> (resolve cols r = Some c \<longleftrightarrow>
        (\<exists>i < length cols. cols ! i = c \<and> role_pred r c \<and> (\<forall>j < i. \<not> role_pred r (cols ! j))))
   \<and> role_pred r (lower c) = role_pred r c
   \<and> (columns t1 = columns t2 \<longrightarrow> resolve (columns t1) r = resolve (columns t2) r)"
  unfolding resolve_def
  using next_match_None[of "role_pred r" cols] next_match_Some[of "role_pred r" cols c]
    role_pred_lower[of r c]
  by simp

theorem resolve_first_match_witness:
  "resolve [''Rank'', ''Name'', ''PLATFORM'', ''platform_2''] Platform = Some ''PLATFORM''
   \<and> (\<exists>i < length [''Rank'', ''Name'', ''PLATFORM'', ''platform_2''].
         [''Rank'', ''Name'', ''PLATFORM'', ''platform_2''] ! i = ''PLATFORM''
         \<and> role_pred Platform ''PLATFORM''
         \<and> (\<forall>j < i. \<not> role_pred Platform ([''Rank'', ''Name'', ''PLATFORM'', ''platform_2''] ! j)))
   \<and> resolve [''Rank'', ''Name'', ''PLATFORM'', ''platform_2''] Rating = None
   \<and> \<not> role_pred Rating ''platform_2''"
proof -
  let ?cols = "[''Rank'', ''Name'', ''PLATFORM'', ''platform_2'']"
  let ?t = "\<lparr>columns = ?cols, rows = []\<rparr>"
  have p: "resolve ?cols Platform = Some ''PLATFORM''"
    by (simp add: resolve_def lower_def lower_char_def)
  have r: "resolve ?cols Rating = None"
    by (simp add: resolve_def lower_def lower_char_def)
  from p resolve_first_match[of ?cols Platform "''PLATFORM''" ?t ?t]
  have 1: "\<exists>i < length ?cols. ?cols ! i = ''PLATFORM'' \<and> role_pred Platform ''PLATFORM''
         \<and> (\<forall>j < i. \<not> role_pred Platform (?cols ! j))"
    by blast
  from r resolve_first_match[of ?cols Rating "''Rating''" ?t ?t]
  have 2: "\<forall>c \<in> set ?cols. \<not> role_pred Rating c"
    by blast
  from 2 have 3: "\<not> role_pred Rating ''platform_2''" by simp
  from p r 1 3 show ?thesis by blast
qed

subsection \<open>Facts about the filters\<close>

lemma col_index_Some: "c \<in> set hdr \<Longrightarrow> \<exists>i. col_index hdr c = Some i"
  by (induction hdr) auto

lemma col_index_None: "col_index hdr c = None \<longleftrightarrow> c \<notin> set hdr"
  by (induction hdr) auto

lemma next_match_mem: "next_match p cs = Some c \<Longrightarrow> c \<in> set cs \<and> p c"
  by (induction cs) (auto split: if_splits)

lemma resolve_mem: "resolve hdr r = Some c \<Longrightarrow> c \<in> set hdr \<and> role_pred r c"
  unfolding resolve_def by (rule next_match_mem)

lemma role_pred_nonempty: "role_pred r c \<Longrightarrow> c \<noteq> []"
  by (cases r) (auto simp: lower_def)

lemma truthy_resolve: "truthy (resolve hdr r) \<longleftrightarrow> resolve hdr r \<noteq> None"
  using resolve_mem[of hdr r] role_pred_nonempty[of r]
  by (auto simp: truthy_def split: option.splits)

lemma mask_rows_map: "map snd (filter fst (zip (map p xs) xs)) = filter p xs"
  by (induction xs) auto

lemma getitem_mask_map:
  "getitem_mask t (map p (map f (rows t))) = t\<lparr>rows := filter (\<lambda>r. p (f r)) (rows t)\<rparr>"
proof -
  have "map snd (filter fst (zip (map (\<lambda>r. p (f r)) (rows t)) (rows t))) = filter (\<lambda>r. p (f r)) (rows t)"
    by (rule mask_rows_map)
  then show ?thesis by (simp add: getitem_mask_def comp_def)
qed

lemma isin_filter_rows:
  "col_index (columns t) c = Some i \<Longrightarrow>
   isin_filter c sel t = Inr (t\<lparr>rows := filter (\<lambda>r. cell_at i r \<in> set sel) (rows t)\<rparr>)"
  using getitem_mask_map[of t "\<lambda>v. v \<in> set sel" "cell_at i"]
  by (simp add: isin_filter_def column_def and_then_def isin_def)

lemma try_map_to_numeric_id: "list_all nonneg_numeric vs \<Longrightarrow> try_map to_numeric vs = Inr vs"
  by (induction vs) (auto simp: and_then_def to_numeric_def nonneg_numeric_def split: cell.splits)

lemma update_self: "r[i := cell_at i r] = r"
  by (simp add: cell_at_def list_update_beyond)

lemma setitem_same:
  "col_index (columns t) c = Some i \<Longrightarrow> setitem t c (map (cell_at i) (rows t)) = t"
proof -
  have "map (\<lambda>(r, v). r[i := v]) (zip xs (map (cell_at i) xs)) = xs" for xs
    by (induction xs) (auto simp: update_self)
  then show "col_index (columns t) c = Some i \<Longrightarrow> ?thesis"
    by (simp add: setitem_def)
qed

lemma fillna0_ge_nonneg: "nonneg_numeric v \<Longrightarrow> fillna0_ge 0 v"
  by (auto simp: nonneg_numeric_def fillna0_ge_def split: cell.splits)

lemma rating_filter_id:
  assumes "min_rating fs = 0" "list_all nonneg_numeric (role_values t Rating)"
  shows "rating_filter fs (columns t) t = Inr t"
proof (cases "resolve (columns t) Rating")
  case None
  then show ?thesis by (simp add: rating_filter_def truthy_def)
next
  case (Some c)
  then obtain i where i: "col_index (columns t) c = Some i"
    using resolve_mem col_index_Some by blast
  let ?vs = "map (cell_at i) (rows t)"
  have col: "column t c = Inr ?vs" using i by (simp add: column_def)
  from assms(2) Some col have nn: "list_all nonneg_numeric ?vs" by (simp add: role_values_def)
  have tm: "try_map to_numeric ?vs = Inr ?vs" using nn by (rule try_map_to_numeric_id)
  have si: "setitem t c ?vs = t" using i by (rule setitem_same)
  have "filter (\<lambda>r. fillna0_ge 0 (cell_at i r)) (rows t) = rows t"
    using nn fillna0_ge_nonneg by (auto simp: list_all_iff)
  then have gm: "getitem_mask t (map (fillna0_ge 0) ?vs) = t"
    using getitem_mask_map[of t "fillna0_ge 0" "cell_at i"] by simp
  have tr: "truthy (resolve (columns t) Rating)" using Some truthy_resolve[of "columns t" Rating] by simp
  show ?thesis
    using Some tr col tm si gm assms(1)
    by (simp add: rating_filter_def rating_to_numeric_def rating_threshold_def and_then_def)
qed

lemma role_filter_step:
  "(if truthy (resolve (columns t) r) \<and> sel \<noteq> []
    then isin_filter (the (resolve (columns t) r)) sel t else Inr t)
   = Inr (t\<lparr>rows := filter (passes (columns t) r sel) (rows t)\<rparr>)"
proof (cases "active (columns t) r sel")
  case True
  then obtain c where c: "resolve (columns t) r = Some c" by (auto simp: active_def)
  then obtain i where i: "col_index (columns t) c = Some i"
    using resolve_mem col_index_Some by blast
  have "passes (columns t) r sel = (\<lambda>row. cell_at i row \<in> set sel)"
    using True c i by (auto simp: passes_def role_cell_def)
  moreover have "truthy (resolve (columns t) r)"
    using c truthy_resolve[of "columns t" r] by simp
  ultimately show ?thesis using True c isin_filter_rows[OF i, of sel]
    by (simp add: active_def)
next
  case False
  then have "passes (columns t) r sel = (\<lambda>row. True)" by (auto simp: passes_def)
  then have rhs: "t\<lparr>rows := filter (passes (columns t) r sel) (rows t)\<rparr> = t" by simp
  have "\<not> (truthy (resolve (columns t) r) \<and> sel \<noteq> [])"
    using False truthy_resolve[of "columns t" r] by (auto simp: active_def)
  then have lhs: "(if truthy (resolve (columns t) r) \<and> sel \<noteq> []
    then isin_filter (the (resolve (columns t) r)) sel t else Inr t) = Inr t"
    by (rule if_not_P)
  show ?thesis unfolding lhs rhs ..
qed

lemma membership_filters_filter:
  "membership_filters fs (columns df) df =
     Inr (df\<lparr>rows := filter (\<lambda>row. passes (columns df) Platform (selected_platforms fs) row
                                   \<and> passes (columns df) Genre (selected_genres fs) row) (rows df)\<rparr>)"
proof -
  let ?t1 = "df\<lparr>rows := filter (passes (columns df) Platform (selected_platforms fs)) (rows df)\<rparr>"
  have 1: "(if truthy (resolve (columns df) Platform) \<and> selected_platforms fs \<noteq> []
        then isin_filter (the (resolve (columns df) Platform)) (selected_platforms fs) df
        else Inr df) = Inr ?t1"
    by (rule role_filter_step)
  have c: "columns ?t1 = columns df" by simp
  have 2: "(if truthy (resolve (columns df) Genre) \<and> selected_genres fs \<noteq> []
             then isin_filter (the (resolve (columns df) Genre)) (selected_genres fs) ?t1
             else Inr ?t1)
        = Inr (?t1\<lparr>rows := filter (passes (columns df) Genre (selected_genres fs)) (rows ?t1)\<rparr>)"
    using role_filter_step[of ?t1 Genre "selected_genres fs"] unfolding c .
  have 3: "filter (passes (columns df) Genre (selected_genres fs)) (rows ?t1)
      = filter (\<lambda>row. passes (columns df) Platform (selected_platforms fs) row
                                   \<and> passes (columns df) Genre (selected_genres fs) row) (rows df)"
    by (simp add: conj_commute)
  show ?thesis
    unfolding membership_filters_def 1 and_then_def using 2 3 by simp
qed

lemma ola_filter_step:
  "sel = [] \<or> c \<in> set (columns t) \<Longrightarrow>
   (if sel \<noteq> [] then isin_filter c sel t else Inr t)
     = Inr (t\<lparr>rows := filter (ola_passes (columns t) c sel) (rows t)\<rparr>)"
proof (cases "sel = []")
  case True
  then have "ola_passes (columns t) c sel = (\<lambda>row. True)" by (auto simp: ola_passes_def)
  with True show ?thesis by simp
next
  case False
  assume "sel = [] \<or> c \<in> set (columns t)"
  with False obtain i where i: "col_index (columns t) c = Some i"
    using col_index_Some by blast
  then have "ola_passes (columns t) c sel = (\<lambda>row. cell_at i row \<in> set sel)"
    using False by (auto simp: ola_passes_def)
  with False isin_filter_rows[OF i, of sel] show ?thesis by simp
qed

lemma ola_apply_filters_filter:
  assumes "vehicle = [] \<or> ''Vehicle_Type'' \<in> set (columns df)"
    "payment = [] \<or> ''Payment_Method'' \<in> set (columns df)"
    "status = [] \<or> ''Booking_Status'' \<in> set (columns df)"
  shows "ola_apply_filters vehicle payment status df =
     Inr (df\<lparr>rows := filter (\<lambda>row. ola_passes (columns df) ''Vehicle_Type'' vehicle row
                                 \<and> ola_passes (columns df) ''Payment_Method'' payment row
                                 \<and> ola_passes (columns df) ''Booking_Status'' status row) (rows df)\<rparr>)"
proof -
  define pv where "pv = ola_passes (columns df) ''Vehicle_Type'' vehicle"
  define pp where "pp = ola_passes (columns df) ''Payment_Method'' payment"
  define ps where "ps = ola_passes (columns df) ''Booking_Status'' status"
  define t1 where "t1 = df\<lparr>rows := filter pv (rows df)\<rparr>"
  define t2 where "t2 = t1\<lparr>rows := filter pp (rows t1)\<rparr>"
  define t3 where "t3 = t2\<lparr>rows := filter ps (rows t2)\<rparr>"
  have c1: "columns t1 = columns df" and c2: "columns t2 = columns df"
    by (simp_all add: t1_def t2_def)
  have 1: "(if vehicle \<noteq> [] then isin_filter ''Vehicle_Type'' vehicle df else Inr df) = Inr t1"
    unfolding t1_def pv_def using assms(1) by (rule ola_filter_step)
  have 2: "(if payment \<noteq> [] then isin_filter ''Payment_Method'' payment t1 else Inr t1) = Inr t2"
    unfolding t2_def pp_def using ola_filter_step[of payment "''Payment_Method''" t1] assms(2)
    unfolding c1 by simp
  have 3: "(if status \<noteq> [] then isin_filter ''Booking_Status'' status t2 else Inr t2) = Inr t3"
    unfolding t3_def ps_def using ola_filter_step[of status "''Booking_Status''" t2] assms(3)
    unfolding c2 by simp
  have 4: "t3 = df\<lparr>rows := filter (\<lambda>row. pv row \<and> pp row \<and> ps row) (rows df)\<rparr>"
    by (simp add: t3_def t2_def t1_def conj_commute conj_left_commute)
  have "ola_apply_filters vehicle payment status df = Inr t3"
    unfolding ola_apply_filters_def 1 and_then_def sum.case 2 3 ..
  then show ?thesis unfolding 4 pv_def pp_def ps_def .
qed

subsection \<open>Identity and membership laws of the filters\<close>

lemma role_values_filter:
  "list_all q (role_values t r) \<Longrightarrow> list_all q (role_values (t\<lparr>rows := filter p (rows t)\<rparr>) r)"
proof (cases "resolve (columns t) r")
  case None
  then show ?thesis by (simp add: role_values_def)
next
  case (Some c)
  assume a: "list_all q (role_values t r)"
  show ?thesis
  proof (cases "col_index (columns t) c")
    case None
    with Some show ?thesis by (simp add: role_values_def column_def)
  next
    case (Some i)
    with \<open>resolve (columns t) r = Some c\<close> a show ?thesis
      by (simp add: role_values_def column_def list_all_iff)
  qed
qed

lemma apply_filters_membership_only:
  assumes "min_rating fs = 0" "search_title fs = []"
    "list_all nonneg_numeric (role_values df Rating)"
  shows "apply_filters fs df =
     Inr (df\<lparr>rows := filter (\<lambda>row. passes (columns df) Platform (selected_platforms fs) row
                                   \<and> passes (columns df) Genre (selected_genres fs) row) (rows df)\<rparr>)"
proof -
  define t1 where "t1 = df\<lparr>rows := filter (\<lambda>row. passes (columns df) Platform (selected_platforms fs) row
                                   \<and> passes (columns df) Genre (selected_genres fs) row) (rows df)\<rparr>"
  have c: "columns t1 = columns df" by (simp add: t1_def)
  have m: "membership_filters fs (columns df) df = Inr t1"
    unfolding t1_def by (rule membership_filters_filter)
  have "list_all nonneg_numeric (role_values t1 Rating)"
    unfolding t1_def using assms(3) by (rule role_values_filter)
  with assms(1) have "rating_filter fs (columns t1) t1 = Inr t1" by (rule rating_filter_id)
  then have r: "rating_filter fs (columns df) t1 = Inr t1" unfolding c .
  have s: "title_filter fs (columns df) t1 = Inr t1"
    using assms(2) by (simp add: title_filter_def)
  have "apply_filters fs df = Inr t1"
    unfolding apply_filters_def m and_then_def sum.case r s ..
  then show ?thesis unfolding t1_def .
qed

lemma to_numeric_Null: "to_numeric Null = Inr Null"
  by (simp add: to_numeric_def)

lemma coerced_column:
  "try_map to_numeric (map (cell_at i) rs) = Inr ns \<Longrightarrow>
     map (cell_at i) (map (\<lambda>(r, v). r[i := v]) (zip rs ns)) = ns"
proof (induction rs arbitrary: ns)
  case Nil
  then show ?case by simp
next
  case (Cons r rs)
  from Cons.prems obtain n ns' where n: "to_numeric (cell_at i r) = Inr n"
    and t: "try_map to_numeric (map (cell_at i) rs) = Inr ns'" and ns: "ns = n # ns'"
    by (auto simp: and_then_def split: sum.splits)
  have "cell_at i (r[i := n]) = n"
  proof (cases "i < length r")
    case True
    then show ?thesis by (simp add: cell_at_def)
  next
    case False
    then have "cell_at i r = Null" by (simp add: cell_at_def)
    with n have "n = Null" by (simp add: to_numeric_Null)
    with False show ?thesis by (simp add: cell_at_def)
  qed
  with Cons.IH[OF t] ns show ?case by simp
qed

lemma mask_zip:
  "map snd (filter fst (zip (map p ns) (map f (zip rs ns))))
     = map f (filter (\<lambda>(r, v). p v) (zip rs ns))"
proof (induction rs arbitrary: ns)
  case Nil
  then show ?case by simp
next
  case (Cons r rs)
  then show ?case by (cases ns) auto
qed

lemma rating_filter_general:
  assumes "resolve (columns t) Rating \<noteq> None"
    and "try_map to_numeric (role_values t Rating) = Inr ns"
  shows "rating_filter fs (columns t) t =
     Inr (t\<lparr>rows := rated_rows (min_rating fs) (role_index (columns t) Rating) (rows t) ns\<rparr>)"
proof -
  from assms(1) obtain c where c: "resolve (columns t) Rating = Some c" by auto
  then obtain i where i: "col_index (columns t) c = Some i"
    using resolve_mem col_index_Some by blast
  have ri: "role_index (columns t) Rating = i" using c i by (simp add: role_index_def)
  let ?vs = "map (cell_at i) (rows t)"
  have col: "column t c = Inr ?vs" using i by (simp add: column_def)
  then have rv: "role_values t Rating = ?vs" using c by (simp add: role_values_def)
  with assms(2) have tm: "try_map to_numeric ?vs = Inr ns" by simp
  define t1 where "t1 = setitem t c ns"
  have t1: "t1 = t\<lparr>rows := map (\<lambda>(r, v). r[i := v]) (zip (rows t) ns)\<rparr>"
    using i by (simp add: t1_def setitem_def)
  have c1: "column t1 c = Inr ns"
    using i coerced_column[OF tm] by (simp add: column_def t1)
  have g: "getitem_mask t1 (map (fillna0_ge (min_rating fs)) ns)
      = t\<lparr>rows := rated_rows (min_rating fs) i (rows t) ns\<rparr>"
    using mask_zip[of "fillna0_ge (min_rating fs)" ns "\<lambda>(r, v). r[i := v]" "rows t"]
    by (simp add: getitem_mask_def t1 rated_rows_def)
  have tr: "truthy (resolve (columns t) Rating)"
    using c truthy_resolve[of "columns t" Rating] by simp
  have 1: "rating_to_numeric (columns t) t = Inr t1"
    using c col tm by (simp add: rating_to_numeric_def and_then_def t1_def)
  have 2: "rating_threshold fs (columns t) t1 = Inr (t\<lparr>rows := rated_rows (min_rating fs) i (rows t) ns\<rparr>)"
    using c c1 g by (simp add: rating_threshold_def and_then_def)
  show ?thesis using tr 1 2 ri by (simp add: rating_filter_def and_then_def)
qed

lemma rating_filter_unmapped:
  "resolve (columns t) Rating = None \<Longrightarrow> rating_filter fs (columns t) t = Inr t"
  by (simp add: rating_filter_def truthy_def)

lemma apply_filters_rating_only:
  assumes "selected_platforms fs = []" "selected_genres fs = []" "search_title fs = []"
  shows "apply_filters fs df = rating_filter fs (columns df) df"
proof -
  have m: "membership_filters fs (columns df) df = Inr df"
    using assms(1,2) by (simp add: membership_filters_def and_then_def)
  have s: "title_filter fs (columns df) t = Inr t" for t
    using assms(3) by (simp add: title_filter_def)
  show ?thesis
    unfolding apply_filters_def m
    by (cases "rating_filter fs (columns df) df") (simp_all add: and_then_def s)
qed

lemmas run_simps = apply_filters_def membership_filters_def rating_filter_def title_filter_def
     rating_to_numeric_def rating_threshold_def
     and_then_def resolve_def lower_def lower_char_def truthy_def column_def setitem_def getitem_mask_def
     to_numeric_def decimal_literal_def unsigned_decimal_def digit_of_def fillna0_ge_def cell_at_def
     no_filters_def isin_filter_def isin_def role_values_def nonneg_numeric_def astype_str_def
     str_contains_nocase_def regex_meta_def ola_apply_filters_def passes_def active_def role_cell_def ola_passes_def

text \<open>
  C1 (as amended). The ride-hailing filter with nothing selected returns its input
  table, whatever the table. For a table with distinct headers, the video game filter
  with no platform and no genre selected and an empty search text does this:
  \<^item> when no rating column is resolved it returns the input table, whatever the
    minimum rating;
  \<^item> when a rating column is resolved it replaces every rating by its numeric
    conversion and keeps, in their order, exactly the rows whose converted rating, a
    missing one read as 0, is at least the minimum rating (for every rating column
    whose conversion is described here);
  \<^item> so at the minimum rating 0 it returns the input table, every cell included, when
    the rating column holds only missing values and numbers that are not negative.
\<close>

theorem all_empty_filters_identity:
  "ola_apply_filters [] [] [] t = Inr t
   \<and> (distinct (columns df) \<and> list_all nonneg_numeric (role_values df Rating)
        \<longrightarrow> apply_filters no_filters df = Inr df)
   \<and> (distinct (columns df) \<and> selected_platforms fs = [] \<and> selected_genres fs = []
        \<and> search_title fs = [] \<and> resolve (columns df) Rating = None
        \<longrightarrow> apply_filters fs df = Inr df)
   \<and> (distinct (columns df) \<and> selected_platforms fs = [] \<and> selected_genres fs = []
        \<and> search_title fs = [] \<and> resolve (columns df) Rating \<noteq> None
        \<and> try_map to_numeric (role_values df Rating) = Inr ns
        \<longrightarrow> apply_filters fs df =
            Inr (df\<lparr>rows := rated_rows (min_rating fs) (role_index (columns df) Rating)
                                  (rows df) ns\<rparr>))"
proof (intro conjI impI)
  show "ola_apply_filters [] [] [] t = Inr t"
    by (simp add: ola_apply_filters_def and_then_def)
next
  assume a: "distinct (columns df) \<and> list_all nonneg_numeric (role_values df Rating)"
  have "passes (columns df) r [] = (\<lambda>row. True)" for r
    by (auto simp: passes_def active_def)
  then have "df\<lparr>rows := filter (\<lambda>row. passes (columns df) Platform (selected_platforms no_filters) row
        \<and> passes (columns df) Genre (selected_genres no_filters) row) (rows df)\<rparr> = df"
    by (simp add: no_filters_def)
  moreover have "min_rating no_filters = 0" "search_title no_filters = []"
    by (simp_all add: no_filters_def)
  ultimately show "apply_filters no_filters df = Inr df"
    using apply_filters_membership_only[of no_filters df] a by simp
next
  assume a: "distinct (columns df) \<and> selected_platforms fs = [] \<and> selected_genres fs = []
        \<and> search_title fs = [] \<and> resolve (columns df) Rating = None"
  then have "apply_filters fs df = rating_filter fs (columns df) df"
    by (simp add: apply_filters_rating_only)
  with a show "apply_filters fs df = Inr df" by (simp add: rating_filter_unmapped)
next
  assume a: "distinct (columns df) \<and> selected_platforms fs = [] \<and> selected_genres fs = []
        \<and> search_title fs = [] \<and> resolve (columns df) Rating \<noteq> None
        \<and> try_map to_numeric (role_values df Rating) = Inr ns"
  then have "apply_filters fs df = rating_filter fs (columns df) df"
    by (simp add: apply_filters_rating_only)
  moreover from a have "rating_filter fs (columns df) df =
     Inr (df\<lparr>rows := rated_rows (min_rating fs) (role_index (columns df) Rating) (rows df) ns\<rparr>)"
    by (intro rating_filter_general) simp_all
  ultimately show "apply_filters fs df =
     Inr (df\<lparr>rows := rated_rows (min_rating fs) (role_index (columns df) Rating) (rows df) ns\<rparr>)"
    by simp
qed

theorem all_empty_filters_identity_witness:
  "apply_filters no_filters
     \<lparr>columns = [''Name'', ''Platform'', ''Rating''],
      rows = [[Str ''Halo'', Str ''XB'', Num 4.5], [Str ''Pong'', Null, Null], [Null, Str ''PC'', Num 0]]\<rparr>
   = Inr \<lparr>columns = [''Name'', ''Platform'', ''Rating''],
      rows = [[Str ''Halo'', Str ''XB'', Num 4.5], [Str ''Pong'', Null, Null], [Null, Str ''PC'', Num 0]]\<rparr>
   \<and> apply_filters \<lparr>selected_platforms = [], selected_genres = [], min_rating = 3,
                       search_title = []\<rparr>
     \<lparr>columns = [''Name'', ''Score''], rows = [[Str ''Halo'', Num 1], [Str ''Pong'', Null]]\<rparr>
   = Inr \<lparr>columns = [''Name'', ''Score''], rows = [[Str ''Halo'', Num 1], [Str ''Pong'', Null]]\<rparr>
   \<and> apply_filters \<lparr>selected_platforms = [], selected_genres = [], min_rating = 1,
                       search_title = []\<rparr>
     \<lparr>columns = [''Name'', ''Rating''],
      rows = [[Str ''A'', Num (-1)], [Str ''B'', Str ''unrated''], [Str ''C'', Str ''4.5''],
              [Str ''D'', Num 2], [Str ''E'', Null]]\<rparr>
   = Inr \<lparr>columns = [''Name'', ''Rating''],
      rows = [[Str ''C'', Num 4.5], [Str ''D'', Num 2]]\<rparr>"
proof -
  let ?d1 = "\<lparr>columns = [''Name'', ''Platform'', ''Rating''],
      rows = [[Str ''Halo'', Str ''XB'', Num 4.5], [Str ''Pong'', Null, Null], [Null, Str ''PC'', Num 0]]\<rparr>"
  let ?f2 = "\<lparr>selected_platforms = [], selected_genres = [], min_rating = 3, search_title = []\<rparr>"
  let ?d2 = "\<lparr>columns = [''Name'', ''Score''], rows = [[Str ''Halo'', Num 1], [Str ''Pong'', Null]]\<rparr>"
  let ?f3 = "\<lparr>selected_platforms = [], selected_genres = [], min_rating = 1, search_title = []\<rparr>"
  let ?d3 = "\<lparr>columns = [''Name'', ''Rating''],
      rows = [[Str ''A'', Num (-1)], [Str ''B'', Str ''unrated''], [Str ''C'', Str ''4.5''],
              [Str ''D'', Num 2], [Str ''E'', Null]]\<rparr>"
  let ?n3 = "[Num (-1), Null, Num 4.5, Num 2, Null]"
  have h1: "distinct (columns ?d1) \<and> list_all nonneg_numeric (role_values ?d1 Rating)"
    by (simp add: role_values_def resolve_def lower_def lower_char_def column_def cell_at_def
        nonneg_numeric_def)
  have h2: "distinct (columns ?d2) \<and> selected_platforms ?f2 = [] \<and> selected_genres ?f2 = []
        \<and> search_title ?f2 = [] \<and> resolve (columns ?d2) Rating = None"
    by (simp add: resolve_def lower_def lower_char_def)
  have h3: "distinct (columns ?d3) \<and> selected_platforms ?f3 = [] \<and> selected_genres ?f3 = []
        \<and> search_title ?f3 = [] \<and> resolve (columns ?d3) Rating \<noteq> None
        \<and> try_map to_numeric (role_values ?d3 Rating) = Inr ?n3"
    by (simp add: role_values_def resolve_def lower_def lower_char_def column_def cell_at_def
        and_then_def to_numeric_def decimal_literal_def unsigned_decimal_def digit_of_def)
  have r3: "rated_rows (min_rating ?f3) (role_index (columns ?d3) Rating) (rows ?d3) ?n3
      = [[Str ''C'', Num 4.5], [Str ''D'', Num 2]]"
    by (simp add: rated_rows_def role_index_def resolve_def lower_def lower_char_def
        fillna0_ge_def)
  from all_empty_filters_identity[of t ?d1 ?f2 ?n3] h1
  have 1: "apply_filters no_filters ?d1 = Inr ?d1" by blast
  from all_empty_filters_identity[of t ?d2 ?f2 ?n3] h2
  have 2: "apply_filters ?f2 ?d2 = Inr ?d2" by blast
  from all_empty_filters_identity[of t ?d3 ?f3 ?n3] h3
  have "apply_filters ?f3 ?d3 =
      Inr (?d3\<lparr>rows := rated_rows (min_rating ?f3) (role_index (columns ?d3) Rating)
                                  (rows ?d3) ?n3\<rparr>)" by blast
  then have 3: "apply_filters ?f3 ?d3 = Inr \<lparr>columns = [''Name'', ''Rating''],
      rows = [[Str ''C'', Num 4.5], [Str ''D'', Num 2]]\<rparr>"
    unfolding r3 by simp
  from 1 2 3 show ?thesis by blast
qed

text \<open>
  C1 as stated fails on the video game dashboard: lines 98-100 run whenever a rating
  column is resolved. They replace a rating that is not a number by a missing value and
  drop every row whose rating is below the threshold 0.
\<close>

theorem all_empty_filters_identity_counterexample:
  "apply_filters no_filters
     \<lparr>columns = [''Title'', ''Rating''],
      rows = [[Str ''A'', Num (-1)], [Str ''B'', Str ''unrated'']]\<rparr>
   = Inr \<lparr>columns = [''Title'', ''Rating''], rows = [[Str ''B'', Null]]\<rparr>
   \<and> apply_filters no_filters
     \<lparr>columns = [''Title'', ''Rating''],
      rows = [[Str ''A'', Num (-1)], [Str ''B'', Str ''unrated'']]\<rparr>
   \<noteq> Inr \<lparr>columns = [''Title'', ''Rating''],
      rows = [[Str ''A'', Num (-1)], [Str ''B'', Str ''unrated'']]\<rparr>"
  by (simp add: run_simps)

text \<open>
  C2. The rows left by the membership filters are exactly the rows of the input, in
  their order, that pass every active membership filter: each row of the result has
  its value in the selected set (soundness), no row that passes all of them is dropped
  (completeness), and several filters combine by conjunction. This holds for the two
  membership filters of the video game dashboard (lines 94-97), for its whole filter
  pass when the rating and search filters are at their defaults and leave the table
  alone, and for the three filters of the ride-hailing dashboard (a selection on a
  column the table lacks raises \<^verbatim>\<open>KeyError\<close> there).
\<close>

theorem membership_filters_exact:
  "membership_filters fs (columns df) df =
     Inr (df\<lparr>rows := filter (\<lambda>row. passes (columns df) Platform (selected_platforms fs) row
                                   \<and> passes (columns df) Genre (selected_genres fs) row) (rows df)\<rparr>)
   \<and> (min_rating fs = 0 \<and> search_title fs = [] \<and> list_all nonneg_numeric (role_values df Rating)
        \<longrightarrow> apply_filters fs df =
     Inr (df\<lparr>rows := filter (\<lambda>row. passes (columns df) Platform (selected_platforms fs) row
                                   \<and> passes (columns df) Genre (selected_genres fs) row) (rows df)\<rparr>))
   \<and> ((vehicle = [] \<or> ''Vehicle_Type'' \<in> set (columns t))
        \<and> (payment = [] \<or> ''Payment_Method'' \<in> set (columns t))
        \<and> (status = [] \<or> ''Booking_Status'' \<in> set (columns t))
        \<longrightarrow> ola_apply_filters vehicle payment status t =
     Inr (t\<lparr>rows := filter (\<lambda>row. ola_passes (columns t) ''Vehicle_Type'' vehicle row
                                 \<and> ola_passes (columns t) ''Payment_Method'' payment row
                                 \<and> ola_passes (columns t) ''Booking_Status'' status row) (rows t)\<rparr>))"
  using membership_filters_filter[of fs df] apply_filters_membership_only[of fs df]
    ola_apply_filters_filter[of vehicle t payment status]
  by blast

theorem membership_filters_exact_witness:
  "apply_filters \<lparr>selected_platforms = [Str ''PC'', Str ''XB''], selected_genres = [Str ''Puzzle''],
                  min_rating = 0, search_title = []\<rparr>
     \<lparr>columns = [''Name'', ''Platform'', ''Genre''],
      rows = [[Str ''Halo'', Str ''XB'', Str ''Shooter''], [Str ''Tetris'', Str ''PC'', Str ''Puzzle''],
              [Str ''Pong'', Str ''Arcade'', Str ''Puzzle''], [Str ''Lumines'', Str ''XB'', Str ''Puzzle'']]\<rparr>
   = Inr \<lparr>columns = [''Name'', ''Platform'', ''Genre''],
      rows = [[Str ''Tetris'', Str ''PC'', Str ''Puzzle''], [Str ''Lumines'', Str ''XB'', Str ''Puzzle'']]\<rparr>
   \<and> ola_apply_filters [Str ''Auto''] [] [Str ''Success'', Str ''Incomplete'']
     \<lparr>columns = [''Booking_ID'', ''Booking_Status'', ''Vehicle_Type''],
      rows = [[Num 1, Str ''Success'', Str ''Auto''], [Num 2, Str ''Success'', Str ''Bike''],
              [Num 3, Str ''Cancelled'', Str ''Auto''], [Num 4, Str ''Incomplete'', Str ''Auto'']]\<rparr>
   = Inr \<lparr>columns = [''Booking_ID'', ''Booking_Status'', ''Vehicle_Type''],
      rows = [[Num 1, Str ''Success'', Str ''Auto''], [Num 4, Str ''Incomplete'', Str ''Auto'']]\<rparr>"
proof -
  let ?fs = "\<lparr>selected_platforms = [Str ''PC'', Str ''XB''], selected_genres = [Str ''Puzzle''],
                  min_rating = 0, search_title = []\<rparr>"
  let ?df = "\<lparr>columns = [''Name'', ''Platform'', ''Genre''],
      rows = [[Str ''Halo'', Str ''XB'', Str ''Shooter''], [Str ''Tetris'', Str ''PC'', Str ''Puzzle''],
              [Str ''Pong'', Str ''Arcade'', Str ''Puzzle''], [Str ''Lumines'', Str ''XB'', Str ''Puzzle'']]\<rparr>"
  let ?t = "\<lparr>columns = [''Booking_ID'', ''Booking_Status'', ''Vehicle_Type''],
      rows = [[Num 1, Str ''Success'', Str ''Auto''], [Num 2, Str ''Success'', Str ''Bike''],
              [Num 3, Str ''Cancelled'', Str ''Auto''], [Num 4, Str ''Incomplete'', Str ''Auto'']]\<rparr>"
  have h1: "min_rating ?fs = 0 \<and> search_title ?fs = [] \<and> list_all nonneg_numeric (role_values ?df Rating)"
    by (simp add: role_values_def resolve_def lower_def lower_char_def)
  have h2: "([Str ''Auto''] = [] \<or> ''Vehicle_Type'' \<in> set (columns ?t))
        \<and> (([]::cell list) = [] \<or> ''Payment_Method'' \<in> set (columns ?t))
        \<and> ([Str ''Success'', Str ''Incomplete''] = [] \<or> ''Booking_Status'' \<in> set (columns ?t))"
    by simp
  from membership_filters_exact[of ?fs ?df "[Str ''Auto'']" ?t "[]" "[Str ''Success'', Str ''Incomplete'']"]
    h1 h2
  have "apply_filters ?fs ?df =
     Inr (?df\<lparr>rows := filter (\<lambda>row. passes (columns ?df) Platform (selected_platforms ?fs) row
                                   \<and> passes (columns ?df) Genre (selected_genres ?fs) row) (rows ?df)\<rparr>)"
    and "ola_apply_filters [Str ''Auto''] [] [Str ''Success'', Str ''Incomplete''] ?t =
     Inr (?t\<lparr>rows := filter (\<lambda>row. ola_passes (columns ?t) ''Vehicle_Type'' [Str ''Auto''] row
                                 \<and> ola_passes (columns ?t) ''Payment_Method'' [] row
                                 \<and> ola_passes (columns ?t) ''Booking_Status'' [Str ''Success'', Str ''Incomplete''] row) (rows ?t)\<rparr>)"
    by blast+
  then show ?thesis
    by (simp add: passes_def active_def role_cell_def ola_passes_def resolve_def lower_def
        lower_char_def cell_at_def)
qed

subsection \<open>Key figures\<close>

lemma column_empty_rows: "rows t = [] \<Longrightarrow> c \<in> set (columns t) \<Longrightarrow> column t c = Inr []"
  using col_index_Some[of c "columns t"] by (auto simp: column_def)

lemma success_rides_count:
  "column t ''Booking_Status'' = Inr vs \<Longrightarrow>
     success_rides t = Inr (length (filter (\<lambda>v. v = Str ''Success'') vs))"
proof -
  assume a: "column t ''Booking_Status'' = Inr vs"
  then obtain i where i: "col_index (columns t) ''Booking_Status'' = Some i"
    and vs: "vs = map (cell_at i) (rows t)"
    by (auto simp: column_def split: option.splits)
  have "length (rows (getitem_mask t (map (\<lambda>v. v = Str ''Success'') vs)))
      = length (filter (\<lambda>r. cell_at i r = Str ''Success'') (rows t))"
    unfolding vs getitem_mask_map by simp
  also have "\<dots> = length (filter (\<lambda>v. v = Str ''Success'') vs)"
    unfolding vs by (simp add: filter_map comp_def)
  finally show ?thesis using a by (simp add: success_rides_def and_then_def)
qed

lemma success_rate_no_zero_division: "success_rate t \<noteq> Inl ZeroDivisionError"
proof (cases "column t ''Booking_Status''")
  case (Inl e)
  then have "e = KeyError ''Booking_Status''" by (auto simp: column_def split: option.splits)
  with Inl show ?thesis by (simp add: success_rate_def success_rides_def and_then_def)
next
  case (Inr vs)
  from success_rides_count[OF this] show ?thesis
    by (simp add: success_rate_def and_then_def truediv_def)
qed

lemma round2_70: "round2 (7 / 10 * 100) = 70"
  by (simp add: round2_def round_half_even_def)

text \<open>
  C4. On a table with zero rows the success rate is 0 (it never raises a division
  error, on any table), the total revenue is 0 and the total of global sales is 0; on
  a table of 10 rows of which 7 have the booking status \<^verbatim>\<open>Success\<close> the success rate
  is 70. The ride-hailing figures read the columns \<^verbatim>\<open>Booking_Status\<close> and
  \<^verbatim>\<open>Booking_Value\<close>, which the table is taken to have.
\<close>

theorem kpis_zero_rows_and_rate:
  "success_rate t \<noteq> Inl ZeroDivisionError
   \<and> (rows t = [] \<and> ''Booking_Status'' \<in> set (columns t) \<longrightarrow> success_rate t = Inr 0)
   \<and> (rows t = [] \<and> ''Booking_Value'' \<in> set (columns t) \<longrightarrow> total_revenue t = Inr 0)
   \<and> (rows t = [] \<longrightarrow> total_sales df t = Inr 0)
   \<and> (column t ''Booking_Status'' = Inr vs \<and> length vs = 10
        \<and> length (filter (\<lambda>v. v = Str ''Success'') vs) = 7 \<longrightarrow> success_rate t = Inr 70)"
proof (intro conjI impI)
  show "success_rate t \<noteq> Inl ZeroDivisionError" by (rule success_rate_no_zero_division)
next
  assume a: "rows t = [] \<and> ''Booking_Status'' \<in> set (columns t)"
  then have "column t ''Booking_Status'' = Inr []" by (simp add: column_empty_rows)
  from success_rides_count[OF this] a show "success_rate t = Inr 0"
    by (simp add: success_rate_def and_then_def total_rides_def)
next
  assume a: "rows t = [] \<and> ''Booking_Value'' \<in> set (columns t)"
  then have "column t ''Booking_Value'' = Inr []" by (simp add: column_empty_rows)
  then show "total_revenue t = Inr 0"
    by (simp add: total_revenue_def and_then_def series_sum_def)
next
  assume a: "rows t = []"
  show "total_sales df t = Inr 0"
  proof (cases "resolve (columns df) Global_Sales")
    case None
    then show ?thesis by (simp add: total_sales_def)
  next
    case (Some c)
    show ?thesis
    proof (cases "has_column t c")
      case True
      then have "c \<in> set (columns t)" by (simp add: has_column_def col_index_None)
      with a have "column t c = Inr []" by (simp add: column_empty_rows)
      with Some True show ?thesis by (simp add: total_sales_def and_then_def series_sum_def)
    next
      case False
      with Some show ?thesis by (simp add: total_sales_def)
    qed
  qed
next
  assume a: "column t ''Booking_Status'' = Inr vs \<and> length vs = 10
        \<and> length (filter (\<lambda>v. v = Str ''Success'') vs) = 7"
  then have c: "column t ''Booking_Status'' = Inr vs" by simp
  then have "length (rows t) = length vs" by (auto simp: column_def split: option.splits)
  with a have n: "total_rides t = 10" by (simp add: total_rides_def)
  from success_rides_count[OF c] a have s: "success_rides t = Inr 7" by simp
  show "success_rate t = Inr 70"
    using n s round2_70 by (simp add: success_rate_def and_then_def truediv_def)
qed

theorem kpis_zero_rows_and_rate_witness:
  "success_rate \<lparr>columns = [''Booking_Status'', ''Booking_Value''], rows = []\<rparr> = Inr 0
   \<and> total_revenue \<lparr>columns = [''Booking_Status'', ''Booking_Value''], rows = []\<rparr> = Inr 0
   \<and> total_sales \<lparr>columns = [''Name'', ''Global_Sales''], rows = [[Str ''Halo'', Num 3]]\<rparr>
        \<lparr>columns = [''Name'', ''Global_Sales''], rows = []\<rparr> = Inr 0
   \<and> success_rate \<lparr>columns = [''Booking_Status''],
        rows = [[Str ''Success''], [Str ''Cancelled''], [Str ''Success''], [Str ''Success''],
                [Str ''Success''], [Str ''Cancelled''], [Str ''Success''], [Str ''Success''],
                [Str ''Cancelled''], [Str ''Success'']]\<rparr> = Inr 70"
proof -
  let ?e = "\<lparr>columns = [''Booking_Status'', ''Booking_Value''], rows = []\<rparr>"
  let ?df = "\<lparr>columns = [''Name'', ''Global_Sales''], rows = [[Str ''Halo'', Num 3]]\<rparr>"
  let ?f = "\<lparr>columns = [''Name'', ''Global_Sales''], rows = []\<rparr>"
  let ?t = "\<lparr>columns = [''Booking_Status''],
        rows = [[Str ''Success''], [Str ''Cancelled''], [Str ''Success''], [Str ''Success''],
                [Str ''Success''], [Str ''Cancelled''], [Str ''Success''], [Str ''Success''],
                [Str ''Cancelled''], [Str ''Success'']]\<rparr>"
  let ?vs = "[Str ''Success'', Str ''Cancelled'', Str ''Success'', Str ''Success'',
                Str ''Success'', Str ''Cancelled'', Str ''Success'', Str ''Success'',
                Str ''Cancelled'', Str ''Success'']"
  have 1: "rows ?e = [] \<and> ''Booking_Status'' \<in> set (columns ?e)"
    and 2: "rows ?e = [] \<and> ''Booking_Value'' \<in> set (columns ?e)"
    and 3: "rows ?f = []"
    by simp_all
  have 4: "column ?t ''Booking_Status'' = Inr ?vs \<and> length ?vs = 10
        \<and> length (filter (\<lambda>v. v = Str ''Success'') ?vs) = 7"
    by (simp add: column_def cell_at_def)
  from kpis_zero_rows_and_rate[of ?e ?df ?vs] 1 2
  have a: "success_rate ?e = Inr 0" and b: "total_revenue ?e = Inr 0" by blast+
  from kpis_zero_rows_and_rate[of ?f ?df ?vs] 3 have c: "total_sales ?df ?f = Inr 0" by blast
  from kpis_zero_rows_and_rate[of ?t ?df ?vs] 4 have d: "success_rate ?t = Inr 70" by blast
  from a b c d show ?thesis by blast
qed

text \<open>
  C10. On a table with zero rows the average fare is not-a-number (the rounded mean of
  an empty column): it is neither 0 nor an error, there being no guard for zero rows as
  the success rate has. The table is taken to have the column \<^verbatim>\<open>Booking_Value\<close>.
\<close>

theorem avg_fare_zero_rows_nan:
  "rows t = [] \<Longrightarrow> ''Booking_Value'' \<in> set (columns t) \<Longrightarrow> avg_fare t = Inr None"
  by (simp add: avg_fare_def column_empty_rows and_then_def series_mean_def)

theorem avg_fare_zero_rows_nan_witness:
  "avg_fare \<lparr>columns = [''Booking_Status'', ''Booking_Value''], rows = []\<rparr> = Inr None"
proof -
  let ?e = "\<lparr>columns = [''Booking_Status'', ''Booking_Value''], rows = []\<rparr>"
  have "rows ?e = []" "''Booking_Value'' \<in> set (columns ?e)" by simp_all
  then show ?thesis by (rule avg_fare_zero_rows_nan)
qed

subsection \<open>Title search\<close>

text \<open>
  C5. The title search converts the column with \<^verbatim>\<open>astype(str)\<close> before it matches, so
  a missing title is searched as the text \<^verbatim>\<open>nan\<close> and \<^verbatim>\<open>na=False\<close> never applies:
  with the search text \<^verbatim>\<open>nan\<close> over the titles \<^verbatim>\<open>Car Racer\<close>, \<^verbatim>\<open>Sedan\<close> and a missing
  one, the row with the missing title is the one retained. (With the search text
  \<^verbatim>\<open>car\<close> the same table gives the first row only, as the claim's example says.)
\<close>

theorem title_search_missing_title_matches:
  "apply_filters (no_filters\<lparr>search_title := ''nan''\<rparr>)
     \<lparr>columns = [''Title''], rows = [[Str ''Car Racer''], [Str ''Sedan''], [Null]]\<rparr>
   = Inr \<lparr>columns = [''Title''], rows = [[Null]]\<rparr>
   \<and> apply_filters (no_filters\<lparr>search_title := ''car''\<rparr>)
     \<lparr>columns = [''Title''], rows = [[Str ''Car Racer''], [Str ''Sedan''], [Null]]\<rparr>
   = Inr \<lparr>columns = [''Title''], rows = [[Str ''Car Racer'']]\<rparr>"
  by (simp add: run_simps)

subsection \<open>Missing columns in the catalogue and in the consumer tab\<close>

text \<open>
  C6. The claim fails on the code. The entry for the top-rated games checks for the
  column \<^verbatim>\<open>Rating\<close> only and then reads \<^verbatim>\<open>Title\<close> as well: on a table with a rating
  and no title column it raises \<^verbatim>\<open>KeyError\<close> where the claim has the notice. The
  consumer tab reads \<^verbatim>\<open>Wishlist\<close> and \<^verbatim>\<open>Plays\<close> with no check at all (and asks a few
  lines later whether \<^verbatim>\<open>Plays\<close> is there). The entry on regions, with no column ending
  in \<^verbatim>\<open>_Sales\<close>, shows neither a chart nor the notice.
\<close>

theorem run_question_missing_title_raises:
  "run_question TopRatedGames
     \<lparr>columns = [''Name'', ''Rating''], rows = [[Str ''Halo'', Num 4]]\<rparr>
     = Inl (KeyError ''Title'')
   \<and> consumer_behavior [''Name'', ''Rating'']
     \<lparr>columns = [''Name'', ''Rating''], rows = [[Str ''Halo'', Num 4]]\<rparr>
     = Inl (KeyError ''Wishlist'')
   \<and> run_question RegionHighestSales
     \<lparr>columns = [''Name'', ''Rating''], rows = [[Str ''Halo'', Num 4]]\<rparr>
     = Inr Nothing"
  by (simp add: has_column_def and_then_def consumer_behavior_def numeric_fill0_def column_def
      endswith_def)

subsection \<open>Loading with no usable source\<close>

lemma load_data_no_source:
  assumes "csv_file fl = Absent"
    and "db_file fl = Absent \<or> (\<exists>tabs. db_file fl = Present tabs
          \<and> ''merged'' \<notin> set (map fst tabs) \<and> ''video_game_data'' \<notin> set (map fst tabs)
          \<and> \<not> (''games'' \<in> set (map fst tabs) \<and> ''sales'' \<in> set (map fst tabs)))"
  shows "load_data fl = Inr empty_frame"
  using assms
  by (auto simp: load_data_def read_csv_if_exists_def and_then_def empty_frame_def)

text \<open>
  C8 (as amended). In the video game dashboard, when the CSV file does not exist and
  the database does not exist either (or exists, is readable, and holds none of the
  tables the loader looks for), the loader yields the empty table and the script
  stops with the notice that no data was found. A database or CSV file that exists
  and cannot be read raises out of the loader. The loader of the ride-hailing
  dashboard has no fallback and no check: a missing or unreadable file raises.
\<close>

theorem no_source_halts_or_raises:
  "(csv_file fl = Absent
      \<and> (db_file fl = Absent \<or> (\<exists>tabs. db_file fl = Present tabs
          \<and> ''merged'' \<notin> set (map fst tabs) \<and> ''video_game_data'' \<notin> set (map fst tabs)
          \<and> \<not> (''games'' \<in> set (map fst tabs) \<and> ''sales'' \<in> set (map fst tabs))))
      \<longrightarrow> load_data fl = Inr empty_frame \<and> vg_startup fl = Inr Halted)
   \<and> (db_file fl = Unreadable \<longrightarrow> vg_startup fl = Inl DatabaseError)
   \<and> (db_file fl = Absent \<and> csv_file fl = Unreadable \<longrightarrow> vg_startup fl = Inl ParserError)
   \<and> ola_startup Absent = Inl FileNotFoundError
   \<and> ola_startup Unreadable = Inl ParserError"
proof (intro conjI impI)
  assume a: "csv_file fl = Absent
      \<and> (db_file fl = Absent \<or> (\<exists>tabs. db_file fl = Present tabs
          \<and> ''merged'' \<notin> set (map fst tabs) \<and> ''video_game_data'' \<notin> set (map fst tabs)
          \<and> \<not> (''games'' \<in> set (map fst tabs) \<and> ''sales'' \<in> set (map fst tabs))))"
  then show l: "load_data fl = Inr empty_frame" using load_data_no_source[of fl] by blast
  then show "vg_startup fl = Inr Halted"
    by (simp add: vg_startup_def and_then_def empty_def empty_frame_def)
next
  assume "db_file fl = Unreadable"
  then show "vg_startup fl = Inl DatabaseError"
    by (simp add: vg_startup_def load_data_def and_then_def)
next
  assume "db_file fl = Absent \<and> csv_file fl = Unreadable"
  then show "vg_startup fl = Inl ParserError"
    by (simp add: vg_startup_def load_data_def and_then_def read_csv_if_exists_def read_csv_def)
next
  show "ola_startup Absent = Inl FileNotFoundError"
    by (simp add: ola_startup_def ola_load_data_def read_csv_def and_then_def)
next
  show "ola_startup Unreadable = Inl ParserError"
    by (simp add: ola_startup_def ola_load_data_def read_csv_def and_then_def)
qed

theorem no_source_halts_or_raises_witness:
  "vg_startup \<lparr>db_file = Absent, csv_file = Absent\<rparr> = Inr Halted
   \<and> vg_startup \<lparr>db_file = Present [(''notes'', \<lparr>columns = [''id''], rows = [[Num 1]]\<rparr>)],
                  csv_file = Absent\<rparr> = Inr Halted
   \<and> vg_startup \<lparr>db_file = Unreadable, csv_file = Absent\<rparr> = Inl DatabaseError
   \<and> vg_startup \<lparr>db_file = Absent, csv_file = Unreadable\<rparr> = Inl ParserError"
proof -
  let ?a = "\<lparr>db_file = Absent, csv_file = Absent\<rparr>"
  let ?tabs = "[(''notes'', \<lparr>columns = [''id''], rows = [[Num 1]]\<rparr>)]"
  let ?b = "\<lparr>db_file = Present ?tabs, csv_file = Absent\<rparr>"
  let ?c = "\<lparr>db_file = Unreadable, csv_file = Absent\<rparr>"
  let ?d = "\<lparr>db_file = Absent, csv_file = Unreadable\<rparr>"
  have "csv_file ?a = Absent \<and> db_file ?a = Absent" by simp
  with no_source_halts_or_raises[of ?a] have 1: "vg_startup ?a = Inr Halted" by blast
  have "csv_file ?b = Absent \<and> db_file ?b = Present ?tabs
          \<and> ''merged'' \<notin> set (map fst ?tabs) \<and> ''video_game_data'' \<notin> set (map fst ?tabs)
          \<and> \<not> (''games'' \<in> set (map fst ?tabs) \<and> ''sales'' \<in> set (map fst ?tabs))" by simp
  with no_source_halts_or_raises[of ?b] have 2: "vg_startup ?b = Inr Halted" by blast
  have "db_file ?c = Unreadable" by simp
  with no_source_halts_or_raises[of ?c] have 3: "vg_startup ?c = Inl DatabaseError" by blast
  have "db_file ?d = Absent \<and> csv_file ?d = Unreadable" by simp
  with no_source_halts_or_raises[of ?d] have 4: "vg_startup ?d = Inl ParserError" by blast
  from 1 2 3 4 show ?thesis by blast
qed

text \<open>
  C8 as stated fails: with its file missing the ride-hailing loader raises
  \<^verbatim>\<open>FileNotFoundError\<close>, and a database file that is not a database raises out of the
  video game loader; neither yields an empty table.
\<close>

theorem no_source_halts_counterexample:
  "ola_load_data Absent = Inl FileNotFoundError
   \<and> ola_startup Absent = Inl FileNotFoundError
   \<and> vg_startup \<lparr>db_file = Unreadable, csv_file = Absent\<rparr> = Inl DatabaseError"
  by (simp add: ola_startup_def ola_load_data_def read_csv_def and_then_def vg_startup_def
      load_data_def)

subsection \<open>The loaded table is never changed\<close>

lemma exec_keeps:
  assumes "\<not> is_alias x" "separate d s" "exec d x s = (r, s')"
  shows "separate d s' \<and> heap s' ! d = heap s ! d"
proof (cases x)
  case Copy
  with assms show ?thesis by (auto simp: separate_def nth_append split: option.splits)
next
  case Alias
  with assms show ?thesis by simp
next
  case (Derive g)
  with assms show ?thesis
    by (auto simp: separate_def nth_append split: option.splits sum.splits)
next
  case (Mutate g)
  with assms show ?thesis
    by (auto simp: separate_def split: option.splits sum.splits)
next
  case (Inspect g)
  with assms show ?thesis
    by (auto simp: separate_def split: option.splits sum.splits)
next
  case (Read_df g)
  with assms show ?thesis
    by (auto simp: separate_def split: option.splits sum.splits)
qed

lemma run_keeps:
  "\<not> list_ex is_alias xs \<Longrightarrow> separate d s \<Longrightarrow> run d xs s = (r, s') \<Longrightarrow>
     separate d s' \<and> heap s' ! d = heap s ! d"
proof (induction xs arbitrary: s)
  case Nil
  then show ?case by simp
next
  case (Cons x xs)
  obtain r1 s1 where e: "exec d x s = (r1, s1)" by (cases "exec d x s")
  from Cons.prems(1) have na: "\<not> is_alias x" and nb: "\<not> list_ex is_alias xs" by simp_all
  from exec_keeps[OF na Cons.prems(2) e] have k: "separate d s1" "heap s1 ! d = heap s ! d"
    by simp_all
  show ?case
  proof (cases r1)
    case None
    with e Cons.prems(3) have "run d xs s1 = (r, s')" by simp
    from Cons.IH[OF nb k(1) this] k(2) show ?thesis by simp
  next
    case (Some err)
    with e Cons.prems(3) have "s' = s1" by simp
    with k show ?thesis by simp
  qed
qed

lemma run_append:
  "run d (xs @ ys) s =
     (case run d xs s of (Some e, s') \<Rightarrow> (Some e, s') | (None, s') \<Rightarrow> run d ys s')"
  by (induction xs arbitrary: s) (auto split: prod.splits option.splits)

lemma exec_local:
  assumes "local_stmt x" "separate d s" "filtered_ref s = Some a" "exec d x s = (r, s')"
  shows "case fn_of x (heap s ! a) of
           Inl e \<Rightarrow> r = Some e
         | Inr t \<Rightarrow> r = None \<and> (\<exists>b. filtered_ref s' = Some b \<and> heap s' ! b = t)"
proof (cases x)
  case (Derive g)
  with assms show ?thesis by (auto simp: nth_append split: sum.splits)
next
  case (Mutate g)
  with assms show ?thesis by (auto simp: separate_def split: sum.splits)
next
  case (Inspect g)
  with assms show ?thesis by (auto simp: and_then_def split: sum.splits)
qed (use assms in simp_all)

lemma local_not_alias: "local_stmt x \<Longrightarrow> \<not> is_alias x"
  by (cases x) simp_all

lemma run_local:
  "list_all local_stmt xs \<Longrightarrow> separate d s \<Longrightarrow> filtered_ref s = Some a \<Longrightarrow>
   run d xs s = (r, s') \<Longrightarrow>
     (case derived (map fn_of xs) (heap s ! a) of
        Inl e \<Rightarrow> r = Some e
      | Inr t \<Rightarrow> r = None \<and> filtered_value s' = Some t)"
proof (induction xs arbitrary: s a)
  case Nil
  then show ?case by (simp add: filtered_value_def)
next
  case (Cons x xs)
  obtain r1 s1 where e: "exec d x s = (r1, s1)" by (cases "exec d x s")
  from Cons.prems(1) have lx: "local_stmt x" and lxs: "list_all local_stmt xs" by simp_all
  from exec_keeps[OF local_not_alias[OF lx] Cons.prems(2) e] have k: "separate d s1" by simp
  note el = exec_local[OF lx Cons.prems(2,3) e]
  show ?case
  proof (cases "fn_of x (heap s ! a)")
    case (Inl err)
    with el have "r1 = Some err" by simp
    with e Cons.prems(4) have "r = Some err" by simp
    with Inl show ?thesis by (simp add: and_then_def)
  next
    case (Inr t)
    with el obtain b where b: "r1 = None" "filtered_ref s1 = Some b" "heap s1 ! b = t" by auto
    with e Cons.prems(4) have "run d xs s1 = (r, s')" by simp
    from Cons.IH[OF lxs k b(2) this] b(3) Inr show ?thesis by (simp add: and_then_def)
  qed
qed

lemma derived_append: "derived (gs @ hs) t = and_then (derived gs t) (derived hs)"
  by (induction gs arbitrary: t) (auto simp: and_then_def split: sum.splits)

lemma separate_loaded: "separate 0 (loaded df)"
  by (simp add: separate_def loaded_def)

lemma copy_state:
  assumes "separate d s"
  shows "exec d Copy s = (None, s1) \<Longrightarrow>
     separate d s1 \<and> filtered_ref s1 = Some (length (heap s)) \<and> heap s1 ! length (heap s) = heap s ! d
       \<and> heap s1 ! d = heap s ! d"
  using assms by (auto simp: separate_def nth_append)

lemma no_alias_derives: "\<not> list_ex is_alias (map Derive gs)"
  by (induction gs) simp_all

lemma local_derives: "list_all local_stmt (map Derive gs)"
  by (induction gs) simp_all

lemma fn_of_derives: "map fn_of (map Derive gs) = gs"
  by (induction gs) simp_all

lemma no_alias_sidebar: "\<not> list_ex is_alias (sidebar_steps fs hdr)"
  by (simp add: sidebar_steps_def)

lemma no_alias_first_part: "\<not> list_ex is_alias (vg_first_part fs df)"
  by (simp add: vg_first_part_def no_alias_sidebar)

lemma no_alias_second_pass: "\<not> list_ex is_alias (second_pass qf df)"
  by (simp add: second_pass_def no_alias_derives)

lemma no_alias_vg_script: "\<not> list_ex is_alias (vg_script fs qf q df)"
  by (simp add: vg_script_def no_alias_first_part no_alias_second_pass)

lemma no_alias_ola_script: "\<not> list_ex is_alias (ola_script v p st)"
  by (simp add: ola_script_def)

lemma second_pass_from:
  assumes "separate 0 s1" "heap s1 ! 0 = df" "run 0 (second_pass qf df) s1 = (r, s2)"
  shows "case second_stage qf df of
           Inl e \<Rightarrow> r = Some e
         | Inr t \<Rightarrow> r = None \<and> filtered_value s2 = Some t"
proof -
  obtain s1' where c: "exec 0 Copy s1 = (None, s1')" by simp
  from copy_state[OF assms(1) c] assms(2)
  have k: "separate 0 s1'" "filtered_ref s1' = Some (length (heap s1))"
    "heap s1' ! length (heap s1) = df" by simp_all
  from assms(3) c have r: "run 0 (map Derive (second_stage_steps qf df)) s1' = (r, s2)"
    by (simp add: second_pass_def)
  note rl = run_local[OF local_derives k(1,2) r, unfolded fn_of_derives]
  from rl k(3) show ?thesis by (simp add: second_stage_def)
qed

lemma run_inspect_state: "run d [Inspect g] s = (r, s') \<Longrightarrow> s' = s"
  by (auto split: option.splits sum.splits)

lemma second_pass_value:
  assumes "\<not> empty df" "run 0 (vg_script fs qf q df) (loaded df) = (None, s)"
  shows "\<exists>t. second_stage qf df = Inr t \<and> filtered_value s = Some t"
proof -
  let ?last = "[Inspect (discard (run_question q))]"
  obtain r1 s1 where r1: "run 0 (vg_first_part fs df) (loaded df) = (r1, s1)"
    by (cases "run 0 (vg_first_part fs df) (loaded df)")
  obtain r2 s2 where r2: "run 0 (second_pass qf df) s1 = (r2, s2)"
    by (cases "run 0 (second_pass qf df) s1")
  from run_keeps[OF no_alias_first_part separate_loaded r1]
  have k1: "separate 0 s1" "heap s1 ! 0 = df" by (simp_all add: loaded_def)
  have sp: "run 0 (vg_script fs qf q df) (loaded df) =
      (case run 0 (vg_first_part fs df) (loaded df) of
         (Some e, s') \<Rightarrow> (Some e, s') | (None, s') \<Rightarrow> run 0 (second_pass qf df @ ?last) s')"
    using assms(1) unfolding vg_script_def by (simp only: if_False run_append)
  have sq: "run 0 (second_pass qf df @ ?last) s1 =
      (case run 0 (second_pass qf df) s1 of
         (Some e, s') \<Rightarrow> (Some e, s') | (None, s') \<Rightarrow> run 0 ?last s')"
    by (rule run_append)
  from assms(2) r1 have n1: "r1 = None"
    unfolding sp by (cases r1) simp_all
  with assms(2) r1 have a2: "run 0 (second_pass qf df @ ?last) s1 = (None, s)"
    unfolding sp by simp
  with r2 have n2: "r2 = None"
    unfolding sq by (cases r2) simp_all
  with a2 r2 have "run 0 ?last s2 = (None, s)"
    unfolding sq by simp
  then have e: "s = s2" by (rule run_inspect_state)
  from second_pass_from[OF k1 r2] n2 e show ?thesis
    by (cases "second_stage qf df") simp_all
qed

lemma and_then_Inr: "and_then m Inr = m"
  by (cases m) (simp_all add: and_then_def)

lemma and_then_assoc: "and_then (and_then m f) g = and_then m (\<lambda>x. and_then (f x) g)"
  by (cases m) (simp_all add: and_then_def)

lemma derived_append_fun: "derived (gs @ hs) = (\<lambda>t. and_then (derived gs t) (derived hs))"
  by (rule ext) (rule derived_append)

lemma derived_Nil_fun: "derived [] = Inr"
  by (rule ext) simp

lemma derived_single: "derived [g] = g"
  by (rule ext) (simp add: derived_Nil_fun and_then_Inr)

lemma derived_optional:
  "derived (map fn_of (if c then [Derive g] else [])) t = (if c then g t else Inr t)"
  by (simp add: and_then_Inr derived_Nil_fun)

lemma derived_rating:
  "derived (map fn_of (if truthy (resolve hdr Rating)
        then [Mutate (rating_to_numeric hdr), Derive (rating_threshold fs hdr)] else [])) t
     = rating_filter fs hdr t"
  by (simp add: rating_filter_def derived_single)

lemma derived_title:
  "derived (map fn_of (if search_title fs \<noteq> [] \<and> truthy (resolve hdr Title)
        then [Derive (title_filter fs hdr)] else [])) t
     = title_filter fs hdr t"
proof (cases "search_title fs \<noteq> [] \<and> truthy (resolve hdr Title)")
  case True
  then show ?thesis by (simp add: and_then_Inr derived_Nil_fun)
next
  case False
  then have "title_filter fs hdr t = Inr t" unfolding title_filter_def by (rule if_not_P)
  moreover have "(if search_title fs \<noteq> [] \<and> truthy (resolve hdr Title)
        then [Derive (title_filter fs hdr)] else []) = []"
    using False by (rule if_not_P)
  ultimately show ?thesis by simp
qed

lemma sidebar_value:
  "derived (map fn_of (sidebar_steps fs (columns df))) df = apply_filters fs df"
proof -
  let ?h = "columns df"
  define A where "A = map fn_of (if truthy (resolve ?h Platform) \<and> selected_platforms fs \<noteq> []
      then [Derive (isin_filter (the (resolve ?h Platform)) (selected_platforms fs))] else [])"
  define B where "B = map fn_of (if truthy (resolve ?h Genre) \<and> selected_genres fs \<noteq> []
        then [Derive (isin_filter (the (resolve ?h Genre)) (selected_genres fs))] else [])"
  define C where "C = map fn_of (if truthy (resolve ?h Rating)
        then [Mutate (rating_to_numeric ?h), Derive (rating_threshold fs ?h)] else [])"
  define D where "D = map fn_of (if search_title fs \<noteq> [] \<and> truthy (resolve ?h Title)
        then [Derive (title_filter fs ?h)] else [])"
  have split: "map fn_of (sidebar_steps fs ?h) = A @ B @ C @ D"
    unfolding sidebar_steps_def A_def B_def C_def D_def by (simp only: map_append)
  have a: "derived A = (\<lambda>t. if truthy (resolve ?h Platform) \<and> selected_platforms fs \<noteq> []
        then isin_filter (the (resolve ?h Platform)) (selected_platforms fs) t else Inr t)"
    unfolding A_def by (rule ext) (rule derived_optional)
  have b: "derived B = (\<lambda>t. if truthy (resolve ?h Genre) \<and> selected_genres fs \<noteq> []
        then isin_filter (the (resolve ?h Genre)) (selected_genres fs) t else Inr t)"
    unfolding B_def by (rule ext) (rule derived_optional)
  have c: "derived C = rating_filter fs ?h"
    unfolding C_def by (rule ext) (rule derived_rating)
  have d: "derived D = title_filter fs ?h"
    unfolding D_def by (rule ext) (rule derived_title)
  have "derived (A @ B @ C @ D) df =
      and_then (derived A df) (\<lambda>t1. and_then (derived B t1)
        (\<lambda>t2. and_then (derived C t2) (derived D)))"
    by (simp only: derived_append_fun)
  also have "\<dots> = apply_filters fs df"
    unfolding a b c d apply_filters_def membership_filters_def and_then_assoc ..
  finally show ?thesis unfolding split .
qed

lemma sidebar_pass_value:
  assumes "run 0 (Copy # sidebar_steps fs (columns df)) (loaded df) = (r, s)"
  shows "case apply_filters fs df of
           Inl e \<Rightarrow> r = Some e
         | Inr t \<Rightarrow> r = None \<and> filtered_value s = Some t"
proof -
  obtain s1 where s1: "exec 0 Copy (loaded df) = (None, s1)" by simp
  from copy_state[OF separate_loaded s1]
  have k: "separate 0 s1" "filtered_ref s1 = Some 1" "heap s1 ! 1 = df"
    by (simp_all add: loaded_def)
  from assms s1 have r: "run 0 (sidebar_steps fs (columns df)) s1 = (r, s)" by simp
  have loc: "list_all local_stmt (sidebar_steps fs (columns df))"
    by (simp add: sidebar_steps_def)
  from run_local[OF loc k(1,2) r] k(3) show ?thesis by (simp add: sidebar_value)
qed

lemmas script_simps = vg_script_def vg_first_part_def second_pass_def sidebar_steps_def
  second_stage_steps_def second_stage_def
  loaded_def discard_def total_sales_def consumer_behavior_def numeric_fill0_def year_bounds_def
  year_filter_def between_def has_column_def has_columns_def series_sum_def series_mean_def
  fillna0_def col_name_def filtered_value_def empty_def sortable_def option_labels_def
  column_of_def mean_if_present_def headline_def overview_def genre_insights_def
  platform_insights_def consumer_scatter_def second_pass_widgets_def py_int_def

text \<open>
  C9. Whatever the widget values and whatever the outcome (an exception included), the
  table the loader produced is the same object with the same content after the
  statements of either script: every statement that changes a frame works on the
  object \<open>filtered\<close> is bound to, which is a copy or a table derived from one, never
  the loaded table. This holds for every sequence of such statements in which
  \<open>filtered\<close> is never bound to the loaded object itself. Whenever the video game
  script reaches its second pass (lines 250-256), after any statements of these kinds,
  the pass raises what the second-stage filters raise on the loaded table or leaves
  \<open>filtered\<close> bound to their result on the loaded table; so when the whole run ends
  without an exception, \<open>filtered\<close> is the result of the second pass (genre, platform,
  year range) on the loaded table and does not depend on the sidebar filters.
\<close>

theorem canonical_table_never_mutated:
  "(\<not> list_ex is_alias script \<longrightarrow> heap (snd (run 0 script (loaded df))) ! 0 = df)
   \<and> heap (snd (run 0 (vg_script fs qf q df) (loaded df))) ! 0 = df
   \<and> heap (snd (run 0 (ola_script vehicle payment status) (loaded df))) ! 0 = df
   \<and> (\<not> list_ex is_alias pre \<and> run 0 pre (loaded df) = (None, s1) \<longrightarrow>
        (case second_stage qf df of
           Inl e \<Rightarrow> fst (run 0 (second_pass qf df) s1) = Some e
         | Inr t \<Rightarrow> fst (run 0 (second_pass qf df) s1) = None
                    \<and> filtered_value (snd (run 0 (second_pass qf df) s1)) = Some t))
   \<and> (\<not> empty df \<and> fst (run 0 (vg_script fs qf q df) (loaded df)) = None \<longrightarrow>
        map_option Inr (filtered_value (snd (run 0 (vg_script fs qf q df) (loaded df))))
          = Some (second_stage qf df))"
proof -
  have gen: "heap (snd (run 0 xs (loaded df))) ! 0 = df" if "\<not> list_ex is_alias xs" for xs
  proof -
    obtain r s where rs: "run 0 xs (loaded df) = (r, s)" by (cases "run 0 xs (loaded df)")
    from run_keeps[OF that separate_loaded rs] rs show ?thesis by (simp add: loaded_def)
  qed
  have 1: "\<not> list_ex is_alias pre \<and> run 0 pre (loaded df) = (None, s1) \<longrightarrow>
        (case second_stage qf df of
           Inl e \<Rightarrow> fst (run 0 (second_pass qf df) s1) = Some e
         | Inr t \<Rightarrow> fst (run 0 (second_pass qf df) s1) = None
                    \<and> filtered_value (snd (run 0 (second_pass qf df) s1)) = Some t)"
  proof
    assume a: "\<not> list_ex is_alias pre \<and> run 0 pre (loaded df) = (None, s1)"
    then have na: "\<not> list_ex is_alias pre" and rp: "run 0 pre (loaded df) = (None, s1)"
      by simp_all
    from run_keeps[OF na separate_loaded rp]
    have k: "separate 0 s1" "heap s1 ! 0 = df" by (simp_all add: loaded_def)
    obtain r s2 where rs: "run 0 (second_pass qf df) s1 = (r, s2)"
      by (cases "run 0 (second_pass qf df) s1")
    from second_pass_from[OF k rs] rs
    show "case second_stage qf df of
           Inl e \<Rightarrow> fst (run 0 (second_pass qf df) s1) = Some e
         | Inr t \<Rightarrow> fst (run 0 (second_pass qf df) s1) = None
                    \<and> filtered_value (snd (run 0 (second_pass qf df) s1)) = Some t"
      by (cases "second_stage qf df") simp_all
  qed
  have 2: "\<not> empty df \<and> fst (run 0 (vg_script fs qf q df) (loaded df)) = None \<longrightarrow>
        map_option Inr (filtered_value (snd (run 0 (vg_script fs qf q df) (loaded df))))
          = Some (second_stage qf df)"
  proof
    assume a: "\<not> empty df \<and> fst (run 0 (vg_script fs qf q df) (loaded df)) = None"
    obtain s where "run 0 (vg_script fs qf q df) (loaded df) = (None, s)"
      using a by (cases "run 0 (vg_script fs qf q df) (loaded df)") simp
    with second_pass_value[OF _ this] a
    show "map_option Inr (filtered_value (snd (run 0 (vg_script fs qf q df) (loaded df))))
          = Some (second_stage qf df)" by auto
  qed
  show ?thesis
    using gen[of script] gen[OF no_alias_vg_script] gen[OF no_alias_ola_script] 1 2 by blast
qed

theorem canonical_table_never_mutated_witness:
  "heap (snd (run 0
      (vg_script
        \<lparr>selected_platforms = [Str ''XB''], selected_genres = [], min_rating = 1,
          search_title = ''h''\<rparr>
        \<lparr>genre_filter = [Str ''Puzzle''], platform_filter = [], year_range = (1989, 1995)\<rparr>
        MostCommonGenres
        \<lparr>columns = [''Title'', ''Genre'', ''Platform'', ''Year'', ''Rating'', ''Wishlist'',
                    ''Plays'', ''Global_Sales''],
          rows = [[Str ''Halo'', Str ''Shooter'', Str ''XB'', Num 2001, Num 4, Num 12, Num 5, Num 5],
                  [Str ''Tetris'', Str ''Puzzle'', Str ''GB'', Num 1989, Num 3, Num 7, Num 3,
                   Num 2]]\<rparr>)
      (loaded
        \<lparr>columns = [''Title'', ''Genre'', ''Platform'', ''Year'', ''Rating'', ''Wishlist'',
                    ''Plays'', ''Global_Sales''],
          rows = [[Str ''Halo'', Str ''Shooter'', Str ''XB'', Num 2001, Num 4, Num 12, Num 5, Num 5],
                  [Str ''Tetris'', Str ''Puzzle'', Str ''GB'', Num 1989, Num 3, Num 7, Num 3,
                   Num 2]]\<rparr>))) ! 0
   = \<lparr>columns = [''Title'', ''Genre'', ''Platform'', ''Year'', ''Rating'', ''Wishlist'',
                ''Plays'', ''Global_Sales''],
      rows = [[Str ''Halo'', Str ''Shooter'', Str ''XB'', Num 2001, Num 4, Num 12, Num 5, Num 5],
              [Str ''Tetris'', Str ''Puzzle'', Str ''GB'', Num 1989, Num 3, Num 7, Num 3,
               Num 2]]\<rparr>
   \<and> fst (run 0
      (vg_script
        \<lparr>selected_platforms = [Str ''XB''], selected_genres = [], min_rating = 1,
          search_title = ''h''\<rparr>
        \<lparr>genre_filter = [Str ''Puzzle''], platform_filter = [], year_range = (1989, 1995)\<rparr>
        MostCommonGenres
        \<lparr>columns = [''Title'', ''Genre'', ''Platform'', ''Year'', ''Rating'', ''Wishlist'',
                    ''Plays'', ''Global_Sales''],
          rows = [[Str ''Halo'', Str ''Shooter'', Str ''XB'', Num 2001, Num 4, Num 12, Num 5, Num 5],
                  [Str ''Tetris'', Str ''Puzzle'', Str ''GB'', Num 1989, Num 3, Num 7, Num 3,
                   Num 2]]\<rparr>)
      (loaded
        \<lparr>columns = [''Title'', ''Genre'', ''Platform'', ''Year'', ''Rating'', ''Wishlist'',
                    ''Plays'', ''Global_Sales''],
          rows = [[Str ''Halo'', Str ''Shooter'', Str ''XB'', Num 2001, Num 4, Num 12, Num 5, Num 5],
                  [Str ''Tetris'', Str ''Puzzle'', Str ''GB'', Num 1989, Num 3, Num 7, Num 3,
                   Num 2]]\<rparr>))
   = None
   \<and> filtered_value (snd (run 0
      (vg_script
        \<lparr>selected_platforms = [Str ''XB''], selected_genres = [], min_rating = 1,
          search_title = ''h''\<rparr>
        \<lparr>genre_filter = [Str ''Puzzle''], platform_filter = [], year_range = (1989, 1995)\<rparr>
        MostCommonGenres
        \<lparr>columns = [''Title'', ''Genre'', ''Platform'', ''Year'', ''Rating'', ''Wishlist'',
                    ''Plays'', ''Global_Sales''],
          rows = [[Str ''Halo'', Str ''Shooter'', Str ''XB'', Num 2001, Num 4, Num 12, Num 5, Num 5],
                  [Str ''Tetris'', Str ''Puzzle'', Str ''GB'', Num 1989, Num 3, Num 7, Num 3,
                   Num 2]]\<rparr>)
      (loaded
        \<lparr>columns = [''Title'', ''Genre'', ''Platform'', ''Year'', ''Rating'', ''Wishlist'',
                    ''Plays'', ''Global_Sales''],
          rows = [[Str ''Halo'', Str ''Shooter'', Str ''XB'', Num 2001, Num 4, Num 12, Num 5, Num 5],
                  [Str ''Tetris'', Str ''Puzzle'', Str ''GB'', Num 1989, Num 3, Num 7, Num 3,
                   Num 2]]\<rparr>)))
   = Some \<lparr>columns = [''Title'', ''Genre'', ''Platform'', ''Year'', ''Rating'', ''Wishlist'',
                ''Plays'', ''Global_Sales''],
      rows = [[Str ''Tetris'', Str ''Puzzle'', Str ''GB'', Num 1989, Num 3, Num 7, Num 3,
               Num 2]]\<rparr>"
proof -
  let ?fs = "\<lparr>selected_platforms = [Str ''XB''], selected_genres = [], min_rating = 1,
          search_title = ''h''\<rparr>"
  let ?qf = "\<lparr>genre_filter = [Str ''Puzzle''], platform_filter = [], year_range = (1989, 1995)\<rparr>"
  let ?df = "\<lparr>columns = [''Title'', ''Genre'', ''Platform'', ''Year'', ''Rating'', ''Wishlist'',
                    ''Plays'', ''Global_Sales''],
          rows = [[Str ''Halo'', Str ''Shooter'', Str ''XB'', Num 2001, Num 4, Num 12, Num 5, Num 5],
                  [Str ''Tetris'', Str ''Puzzle'', Str ''GB'', Num 1989, Num 3, Num 7, Num 3,
                   Num 2]]\<rparr>"
  let ?res = "\<lparr>columns = [''Title'', ''Genre'', ''Platform'', ''Year'', ''Rating'', ''Wishlist'',
                ''Plays'', ''Global_Sales''],
      rows = [[Str ''Tetris'', Str ''Puzzle'', Str ''GB'', Num 1989, Num 3, Num 7, Num 3,
               Num 2]]\<rparr>"
  define R where "R = run 0 (vg_script ?fs ?qf MostCommonGenres ?df) (loaded ?df)"
  have ne: "\<not> empty ?df" by (simp add: empty_def)
  have e: "fst R = None"
    unfolding R_def by (simp add: script_simps run_simps)
  have v: "second_stage ?qf ?df = Inr ?res"
    by (simp add: script_simps run_simps)
  note t = canonical_table_never_mutated[where df = ?df and fs = ?fs and qf = ?qf
      and q = MostCommonGenres, folded R_def]
  from t have a: "heap (snd R) ! 0 = ?df" by blast
  from t e ne have "map_option Inr (filtered_value (snd R)) = Some (second_stage ?qf ?df)"
    by blast
  with v have "map_option Inr (filtered_value (snd R)) = Some (Inr ?res :: error + table)"
    by (simp only:)
  then have b: "filtered_value (snd R) = Some ?res"
    by (cases "filtered_value (snd R)") simp_all
  from a e b show ?thesis unfolding R_def by (intro conjI)
qed

subsection \<open>Length and order of the Top-N tables\<close>



























end
